theory Spec2Isabelle
  imports Main "HOL-Library.Multiset"
begin

section \<open>Asset handlers over a relational store, a document store and a blob store\<close>

text \<open>
  The five HTTP handlers (\<open>assets_create\<close>, \<open>assets_get\<close>, \<open>assets_list\<close>,
  \<open>assets_update\<close>, \<open>assets_delete\<close>) and the shared adapters (\<open>auth\<close>,
  \<open>cosmos_client\<close>, \<open>sql_client\<close>, \<open>storage\<close>) are embedded as functions that take the
  request and a \<open>world\<close> and return the handler's outcome with the new world. The world
  holds the process environment, the contents of the three stores, what the external
  services answer (which calls raise), a trace of the calls made to the adapters and the
  sequence of logging calls. An exception of the source is a value \<open>Inl e\<close>; a handler that
  lets an exception escape has the outcome \<open>Raised e\<close>.

  The embedding is of the handler bodies: loading the modules and configuring the loggers
  (\<open>logging_utils\<close>) is not part of it, and a log entry records that a logging call was
  made, with the fixed part of its message.
\<close>

subsection \<open>Python values\<close>

text \<open>
  A float is a finite binary fraction \<open>m * 2 ^ e\<close>, an infinity (the flag is the sign
  bit) or a NaN. \<open>PObject\<close> stands for any Python object that \<open>json.dumps\<close> cannot encode
  (a \<open>datetime\<close>, a \<open>Decimal\<close>, \<open>bytes\<close>); the string names its type.
\<close>

datatype pyfloat = FFinite int int | FInf bool | FNaN

datatype pyval =
    PNone
  | PBool bool
  | PInt int
  | PFloat pyfloat
  | PStr string
  | PList "pyval list"
  | PDict "(string \<times> pyval) list"
  | PObject string

type_synonym dict = "(string \<times> pyval) list"

datatype exn =
    ValueError
  | TypeError
  | AttributeError
  | OverflowError
  | AuthenticationError
  | CosmosResourceNotFoundError
  | ServiceError

text \<open>Truth value testing: \<open>not x\<close>, \<open>x or y\<close>, \<open>all([...])\<close>.\<close>

fun truthy :: "pyval \<Rightarrow> bool" where
  "truthy PNone = False"
| "truthy (PBool b) = b"
| "truthy (PInt n) = (n \<noteq> 0)"
| "truthy (PFloat (FFinite m e)) = (m \<noteq> 0)"
| "truthy (PFloat (FInf s)) = True"
| "truthy (PFloat FNaN) = True"
| "truthy (PStr s) = (s \<noteq> [])"
| "truthy (PList xs) = (xs \<noteq> [])"
| "truthy (PDict d) = (d \<noteq> [])"
| "truthy (PObject t) = True"

definition str_truthy :: "string option \<Rightarrow> bool" where
  "str_truthy s = (case s of None \<Rightarrow> False | Some v \<Rightarrow> v \<noteq> [])"

text \<open>
  A string is the list of its code points, which the model takes below 256.
  \<open>is_space\<close> is \<open>str.isspace\<close> there, the characters that \<open>str.strip()\<close> removes.
  \<open>int\<close> skips fewer around a number: the six ASCII whitespace characters, and NEL and
  the no-break space, which it rewrites to a space before it reads the number; it does not
  skip the separators \<open>0x1C\<close> to \<open>0x1F\<close>.
\<close>

definition is_space :: "char \<Rightarrow> bool" where
  "is_space c = (c \<in> set [CHR '' '', CHR 0x09, CHR 0x0A, CHR 0x0B, CHR 0x0C, CHR 0x0D,
                           CHR 0x1C, CHR 0x1D, CHR 0x1E, CHR 0x1F, CHR 0x85, CHR 0xA0])"

definition strip :: "string \<Rightarrow> string" where
  "strip s = rev (dropWhile is_space (rev (dropWhile is_space s)))"

definition int_space :: "char \<Rightarrow> bool" where
  "int_space c = (c \<in> set [CHR '' '', CHR 0x09, CHR 0x0A, CHR 0x0B, CHR 0x0C, CHR 0x0D,
                            CHR 0x85, CHR 0xA0])"

definition int_strip :: "string \<Rightarrow> string" where
  "int_strip s = rev (dropWhile int_space (rev (dropWhile int_space s)))"

text \<open>
  \<open>int(x)\<close>. A string is stripped of the whitespace that \<open>int\<close> skips and read as an
  optional sign and decimal digits, where single underscores may separate digits.
  A finite float is truncated towards zero; an infinity raises \<open>OverflowError\<close> and a NaN
  \<open>ValueError\<close>; \<open>None\<close>, lists and dicts raise \<open>TypeError\<close>. The bound that newer
  interpreters put on the number of digits of a string is left out.
\<close>

definition digit_of :: "char \<Rightarrow> nat option" where
  "digit_of c = (let n = (of_char c :: nat) in if 48 \<le> n \<and> n \<le> 57 then Some (n - 48) else None)"

fun parse_digits :: "nat \<Rightarrow> bool \<Rightarrow> string \<Rightarrow> nat option" where
  "parse_digits acc prev_digit [] = (if prev_digit then Some acc else None)"
| "parse_digits acc prev_digit (c # cs) =
     (if c = CHR ''_'' then (if prev_digit then parse_digits acc False cs else None)
      else (case digit_of c of
              None \<Rightarrow> None
            | Some d \<Rightarrow> parse_digits (10 * acc + d) True cs))"

definition int_of_str :: "string \<Rightarrow> int option" where
  "int_of_str s =
     (case int_strip s of
        [] \<Rightarrow> None
      | c # cs \<Rightarrow>
          if c = CHR ''-'' then map_option (\<lambda>n. - int n) (parse_digits 0 False cs)
          else if c = CHR ''+'' then map_option int (parse_digits 0 False cs)
          else map_option int (parse_digits 0 False (c # cs)))"

definition trunc_float :: "int \<Rightarrow> int \<Rightarrow> int" where
  "trunc_float m e =
     (if 0 \<le> e then m * 2 ^ nat e
      else if 0 \<le> m then m div 2 ^ nat (- e)
      else - ((- m) div 2 ^ nat (- e)))"

fun py_int :: "pyval \<Rightarrow> exn + int" where
  "py_int PNone = Inl TypeError"
| "py_int (PBool b) = Inr (if b then 1 else 0)"
| "py_int (PInt n) = Inr n"
| "py_int (PFloat (FFinite m e)) = Inr (trunc_float m e)"
| "py_int (PFloat (FInf s)) = Inl OverflowError"
| "py_int (PFloat FNaN) = Inl ValueError"
| "py_int (PStr s) = (case int_of_str s of None \<Rightarrow> Inl ValueError | Some n \<Rightarrow> Inr n)"
| "py_int (PList xs) = Inl TypeError"
| "py_int (PDict d) = Inl TypeError"
| "py_int (PObject t) = Inl TypeError"

text \<open>
  A dictionary is the list of its items in insertion order, so its keys are distinct
  (that is \<open>dict\<close> above). \<open>d[k] = v\<close> replaces the value in place or appends,
  \<open>d.get(k)\<close> is \<open>None\<close> for a missing key, \<open>d.update(e)\<close> assigns each item of \<open>e\<close>
  in turn.
\<close>

fun dict_set :: "'k \<Rightarrow> 'v \<Rightarrow> ('k \<times> 'v) list \<Rightarrow> ('k \<times> 'v) list" where
  "dict_set k v [] = [(k, v)]"
| "dict_set k v (p # ps) = (if fst p = k then (k, v) # ps else p # dict_set k v ps)"

definition dict_get :: "dict \<Rightarrow> string \<Rightarrow> pyval" where
  "dict_get d k = (case map_of d k of None \<Rightarrow> PNone | Some v \<Rightarrow> v)"

definition dict_update :: "dict \<Rightarrow> dict \<Rightarrow> dict" where
  "dict_update d e = fold (\<lambda>(k, v). dict_set k v) e d"

text \<open>
  \<open>json.dumps\<close> raises \<open>TypeError\<close> on an object it cannot encode; otherwise the response
  body is the JSON text of the value, which the model keeps as the value itself.
\<close>

fun serializable :: "pyval \<Rightarrow> bool" where
  "serializable (PObject t) = False"
| "serializable (PList xs) = (\<forall>x \<in> set xs. serializable x)"
| "serializable (PDict d) = (\<forall>v \<in> set (map snd d). serializable v)"
| "serializable v = True"

definition json_dumps :: "pyval \<Rightarrow> exn + pyval" where
  "json_dumps v = (if serializable v then Inr v else Inl TypeError)"

subsection \<open>Requests, responses and the world\<close>

datatype payload = Text string | Json pyval

record http_response =
  body :: payload
  status_code :: nat
  mimetype :: string

datatype outcome = Response http_response | Raised exn

text \<open>
  What a handler reads of the request: the \<open>x-api-key\<close> header, the \<open>id\<close> route
  parameter, and what \<open>get_json()\<close> gives (\<open>None\<close> when it raises \<open>ValueError\<close>).
\<close>

record request =
  header_x_api_key :: "string option"
  route_param_id :: "string option"
  get_json :: "pyval option"

text \<open>The table \<open>file_metadata\<close>, with the columns the INSERT statement names.\<close>

record file_metadata =
  row_id :: string
  user_id :: pyval
  file_name :: pyval
  file_type :: pyval
  file_size :: pyval
  blob_url :: pyval
  status :: pyval
  created_at :: int

text \<open>
  The five statements the handlers send, each with its dictionary of bound parameters.
  \<open>UpdateSet cs p\<close> is \<open>UPDATE file_metadata SET c = :c, ... WHERE id = :id\<close> for the
  columns \<open>cs\<close>.
\<close>

datatype sql_stmt =
    InsertFileMetadata dict
  | DeleteById dict
  | UpdateSet "string list" dict
  | SelectById dict
  | SelectAllByCreatedAtDesc

datatype cosmos_op = ReadItem string | UpsertItem dict | DeleteItem string

datatype blob_op = BlobConnect | ListBlobs string | DeleteBlob string

text \<open>
  A call to one of the adapters, and the event the trace keeps of it once it is over:
  whether it returned or raised.
\<close>

datatype call =
    CosmosRead string
  | CosmosUpsert dict
  | CosmosDelete string
  | SqlExecute sql_stmt
  | SqlFetch sql_stmt
  | BlobList string
  | BlobDelete string
  | SasIssue string string

datatype event = Returned call | Threw call exn

datatype level = INFO | WARNING | ERROR

text \<open>
  The world. \<open>environ\<close> is the process environment; \<open>container_ready\<close> and \<open>db_engine\<close>
  are the two module-level singletons (\<open>_CONTAINER\<close>, \<open>_db_engine\<close>); the three stores
  follow. The fields from \<open>cosmos_connect_fault\<close> to \<open>ts_repr\<close> are what the services and
  library calls outside the repository answer: which calls raise, the SAS token
  \<open>generate_blob_sas\<close> signs, \<open>str()\<close> of a value that is not a string, the UUID and the
  clock readings of this request, and the Python value the database driver hands back for a
  \<open>created_at\<close> instant. \<open>trace\<close> records every call to an adapter with its outcome,
  \<open>log\<close> every logging call.
\<close>

record world =
  environ :: "string \<rightharpoonup> string"
  container_ready :: bool
  db_engine :: bool
  cosmos_items :: "string \<rightharpoonup> dict"
  sql_rows :: "file_metadata list"
  blob_names :: "string list"
  cosmos_connect_fault :: bool
  cosmos_fault :: "cosmos_op \<Rightarrow> bool"
  create_engine_fault :: bool
  sql_fault :: "sql_stmt \<Rightarrow> bool"
  blob_fault :: "blob_op \<Rightarrow> bool"
  generate_blob_sas :: "string \<Rightarrow> string \<Rightarrow> string \<Rightarrow> string \<Rightarrow> exn + string"
  str_of :: "pyval \<Rightarrow> string"
  uuid4 :: string
  utcnow_iso :: string
  sysutcdatetime :: int
  ts_repr :: "int \<Rightarrow> pyval"
  trace :: "event list"
  log :: "(level \<times> string) list"

definition emit :: "event \<Rightarrow> world \<Rightarrow> world" where
  "emit e w = w\<lparr>trace := trace w @ [e]\<rparr>"

definition event_of :: "call \<Rightarrow> exn + 'a \<Rightarrow> event" where
  "event_of c r = (case r of Inl e \<Rightarrow> Threw c e | Inr x \<Rightarrow> Returned c)"

definition traced :: "call \<Rightarrow> (world \<Rightarrow> (exn + 'a) \<times> world) \<Rightarrow> world \<Rightarrow> (exn + 'a) \<times> world" where
  "traced c f w = (case f w of (r, w') \<Rightarrow> (r, emit (event_of c r) w'))"

definition logging :: "level \<Rightarrow> string \<Rightarrow> world \<Rightarrow> world" where
  "logging l m w = w\<lparr>log := log w @ [(l, m)]\<rparr>"

definition getenv :: "world \<Rightarrow> string \<Rightarrow> string option" where
  "getenv w name = environ w name"

definition py_str :: "world \<Rightarrow> pyval \<Rightarrow> string" where
  "py_str w v = (case v of PStr s \<Rightarrow> s | _ \<Rightarrow> str_of w v)"

definition text_response :: "string \<Rightarrow> nat \<Rightarrow> http_response" where
  "text_response msg code = \<lparr>body = Text msg, status_code = code, mimetype = ''text/plain''\<rparr>"

definition json_response :: "pyval \<Rightarrow> nat \<Rightarrow> outcome" where
  "json_response v code =
     (case json_dumps v of
        Inl e \<Rightarrow> Raised e
      | Inr j \<Rightarrow> Response \<lparr>body = Json j, status_code = code, mimetype = ''application/json''\<rparr>)"

subsection \<open>shared/auth.py\<close>

definition validate_api_key :: "world \<Rightarrow> string option \<Rightarrow> bool" where
  "validate_api_key w api_key =
     (let configured_key = getenv w ''API_KEY'' in
      if \<not> str_truthy configured_key then True
      else if \<not> str_truthy api_key then False
      else api_key = configured_key)"

definition require_api_key :: "world \<Rightarrow> string option \<Rightarrow> exn + unit" where
  "require_api_key w api_key =
     (if \<not> validate_api_key w api_key then Inl AuthenticationError else Inr ())"

subsection \<open>shared/cosmos_client.py\<close>

text \<open>
  The container holds one document per id. \<open>read_item\<close> and \<open>delete_item\<close> raise
  \<open>CosmosResourceNotFoundError\<close> when the id is absent; any call raises \<open>ServiceError\<close>
  when the service says so. A document is kept as it was written.
\<close>

definition get_container :: "world \<Rightarrow> (exn + unit) \<times> world" where
  "get_container w =
     (if container_ready w then (Inr (), w)
      else if \<not> str_truthy (getenv w ''COSMOS_ENDPOINT'') \<or> \<not> str_truthy (getenv w ''COSMOS_KEY'')
        then (Inl ValueError, logging ERROR ''Failed to initialize Cosmos DB container'' w)
      else if cosmos_connect_fault w
        then (Inl ServiceError, logging ERROR ''Failed to initialize Cosmos DB container'' w)
      else (Inr (), w\<lparr>container_ready := True\<rparr>))"

definition read_item :: "string \<Rightarrow> world \<Rightarrow> (exn + dict) \<times> world" where
  "read_item i w =
     (if cosmos_fault w (ReadItem i) then (Inl ServiceError, w)
      else (case cosmos_items w i of
              None \<Rightarrow> (Inl CosmosResourceNotFoundError, w)
            | Some d \<Rightarrow> (Inr d, w)))"

definition upsert_item :: "dict \<Rightarrow> world \<Rightarrow> (exn + dict) \<times> world" where
  "upsert_item doc w =
     (if cosmos_fault w (UpsertItem doc) then (Inl ServiceError, w)
      else (case map_of doc ''id'' of
              Some (PStr i) \<Rightarrow> (Inr doc, w\<lparr>cosmos_items := (cosmos_items w)(i \<mapsto> doc)\<rparr>)
            | _ \<Rightarrow> (Inl ServiceError, w)))"

definition delete_item :: "string \<Rightarrow> world \<Rightarrow> (exn + unit) \<times> world" where
  "delete_item i w =
     (if cosmos_fault w (DeleteItem i) then (Inl ServiceError, w)
      else (case cosmos_items w i of
              None \<Rightarrow> (Inl CosmosResourceNotFoundError, w)
            | Some d \<Rightarrow> (Inr (), w\<lparr>cosmos_items := (cosmos_items w)(i := None)\<rparr>)))"

definition upsert_asset_doc :: "dict \<Rightarrow> world \<Rightarrow> (exn + dict) \<times> world" where
  "upsert_asset_doc doc =
     traced (CosmosUpsert doc) (\<lambda>w.
       (case get_container w of
          (Inl e, w1) \<Rightarrow> (Inl e, w1)
        | (Inr u, w1) \<Rightarrow> upsert_item doc w1))"

definition get_asset_doc :: "string \<Rightarrow> world \<Rightarrow> (exn + dict option) \<times> world" where
  "get_asset_doc asset_id =
     traced (CosmosRead asset_id) (\<lambda>w.
       (case get_container w of
          (Inl e, w1) \<Rightarrow> (Inl e, w1)
        | (Inr u, w1) \<Rightarrow>
            (case read_item asset_id w1 of
               (Inl e, w2) \<Rightarrow>
                 if e = CosmosResourceNotFoundError then (Inr None, w2) else (Inl e, w2)
             | (Inr d, w2) \<Rightarrow> (Inr (Some d), w2))))"

definition delete_asset_doc :: "string \<Rightarrow> world \<Rightarrow> (exn + unit) \<times> world" where
  "delete_asset_doc asset_id =
     traced (CosmosDelete asset_id) (\<lambda>w.
       (case get_container w of
          (Inl e, w1) \<Rightarrow> (Inl e, w1)
        | (Inr u, w1) \<Rightarrow>
            (case delete_item asset_id w1 of
               (Inl e, w2) \<Rightarrow>
                 if e = CosmosResourceNotFoundError then (Inr (), w2) else (Inl e, w2)
             | (Inr u', w2) \<Rightarrow> (Inr (), w2))))"

subsection \<open>shared/sql_client.py\<close>

text \<open>
  What the database does with a statement: \<open>None\<close> is an error of the statement (an
  unbound parameter, an unknown column, a value of the wrong type for \<open>id\<close> or
  \<open>created_at\<close>). An INSERT appends a row with \<open>user_id\<close> NULL, \<open>status\<close> pending and the
  server's clock as \<open>created_at\<close>; UPDATE and DELETE act on the rows whose \<open>id\<close> equals
  the bound \<open>:id\<close>. Any column can be assigned by an UPDATE that names it.
\<close>

definition insert_row :: "int \<Rightarrow> dict \<Rightarrow> file_metadata option" where
  "insert_row now p =
     (case map_of p ''id'' of
        Some (PStr i) \<Rightarrow>
          (case map_of p ''file_name'' of None \<Rightarrow> None | Some fname \<Rightarrow>
          (case map_of p ''file_type'' of None \<Rightarrow> None | Some ftype \<Rightarrow>
          (case map_of p ''file_size'' of None \<Rightarrow> None | Some fsize \<Rightarrow>
          (case map_of p ''blob_url'' of None \<Rightarrow> None | Some burl \<Rightarrow>
             Some \<lparr>row_id = i, user_id = PNone, file_name = fname, file_type = ftype,
                   file_size = fsize, blob_url = burl, status = PStr ''pending'',
                   created_at = now\<rparr>))))
      | _ \<Rightarrow> None)"

definition set_col :: "string \<Rightarrow> pyval \<Rightarrow> file_metadata \<Rightarrow> file_metadata option" where
  "set_col c v r =
     (if c = ''id'' then (case v of PStr s \<Rightarrow> Some (r\<lparr>row_id := s\<rparr>) | _ \<Rightarrow> None)
      else if c = ''user_id'' then Some (r\<lparr>user_id := v\<rparr>)
      else if c = ''file_name'' then Some (r\<lparr>file_name := v\<rparr>)
      else if c = ''file_type'' then Some (r\<lparr>file_type := v\<rparr>)
      else if c = ''file_size'' then Some (r\<lparr>file_size := v\<rparr>)
      else if c = ''blob_url'' then Some (r\<lparr>blob_url := v\<rparr>)
      else if c = ''status'' then Some (r\<lparr>status := v\<rparr>)
      else if c = ''created_at'' then (case v of PInt t \<Rightarrow> Some (r\<lparr>created_at := t\<rparr>) | _ \<Rightarrow> None)
      else None)"

fun set_cols :: "string list \<Rightarrow> dict \<Rightarrow> file_metadata \<Rightarrow> file_metadata option" where
  "set_cols [] p r = Some r"
| "set_cols (c # cs) p r =
     (case map_of p c of
        None \<Rightarrow> None
      | Some v \<Rightarrow> (case set_col c v r of None \<Rightarrow> None | Some r' \<Rightarrow> set_cols cs p r'))"

fun update_rows :: "string list \<Rightarrow> dict \<Rightarrow> pyval \<Rightarrow> file_metadata list \<Rightarrow> file_metadata list option" where
  "update_rows cs p i [] = Some []"
| "update_rows cs p i (r # rs) =
     (case (if PStr (row_id r) = i then set_cols cs p r else Some r) of
        None \<Rightarrow> None
      | Some r' \<Rightarrow> map_option ((#) r') (update_rows cs p i rs))"

fun sql_exec :: "int \<Rightarrow> sql_stmt \<Rightarrow> file_metadata list \<Rightarrow> file_metadata list option" where
  "sql_exec now (InsertFileMetadata p) rs = map_option (\<lambda>r. rs @ [r]) (insert_row now p)"
| "sql_exec now (DeleteById p) rs =
     (case map_of p ''id'' of
        None \<Rightarrow> None
      | Some i \<Rightarrow> Some (filter (\<lambda>r. PStr (row_id r) \<noteq> i) rs))"
| "sql_exec now (UpdateSet cs p) rs =
     (if cs = [] then None
      else (case map_of p ''id'' of None \<Rightarrow> None | Some i \<Rightarrow> update_rows cs p i rs))"
| "sql_exec now (SelectById p) rs = Some rs"
| "sql_exec now SelectAllByCreatedAtDesc rs = Some rs"

text \<open>
  The column list of both SELECT statements:
  \<open>id, file_name AS fileName, file_type AS fileType, file_size AS fileSize,
  blob_url AS blobUrl, status, created_at AS uploadDate\<close>; a row comes back as the
  dictionary \<open>dict(zip(column_names, row))\<close>.
\<close>

definition select_columns :: "(int \<Rightarrow> pyval) \<Rightarrow> file_metadata \<Rightarrow> dict" where
  "select_columns repr r =
     [(''id'', PStr (row_id r)), (''fileName'', file_name r), (''fileType'', file_type r),
      (''fileSize'', file_size r), (''blobUrl'', blob_url r), (''status'', status r),
      (''uploadDate'', repr (created_at r))]"

definition order_by_created_at_desc :: "file_metadata list \<Rightarrow> file_metadata list" where
  "order_by_created_at_desc rs = sort_key (\<lambda>r. - created_at r) rs"

fun sql_select :: "(int \<Rightarrow> pyval) \<Rightarrow> sql_stmt \<Rightarrow> file_metadata list \<Rightarrow> dict list option" where
  "sql_select repr (SelectById p) rs =
     (case map_of p ''id'' of
        None \<Rightarrow> None
      | Some i \<Rightarrow> Some (map (select_columns repr) (filter (\<lambda>r. PStr (row_id r) = i) rs)))"
| "sql_select repr SelectAllByCreatedAtDesc rs =
     Some (map (select_columns repr) (order_by_created_at_desc rs))"
| "sql_select repr (InsertFileMetadata p) rs = None"
| "sql_select repr (DeleteById p) rs = None"
| "sql_select repr (UpdateSet cs p) rs = None"

definition construct_connection_string :: "world \<Rightarrow> exn + unit" where
  "construct_connection_string w =
     (if \<not> (str_truthy (getenv w ''SQL_SERVER'') \<and> str_truthy (getenv w ''SQL_DATABASE'')
            \<and> str_truthy (getenv w ''SQL_USERNAME'') \<and> str_truthy (getenv w ''SQL_PASSWORD''))
      then Inl ValueError else Inr ())"

definition get_database_engine :: "world \<Rightarrow> (exn + unit) \<times> world" where
  "get_database_engine w =
     (if db_engine w then (Inr (), w)
      else (case construct_connection_string w of
              Inl e \<Rightarrow> (Inl e, logging ERROR ''Failed to initialize SQL database engine'' w)
            | Inr u \<Rightarrow>
                if create_engine_fault w
                then (Inl ServiceError, logging ERROR ''Failed to initialize SQL database engine'' w)
                else (Inr (), w\<lparr>db_engine := True\<rparr>)))"

definition fetch_all_records :: "sql_stmt \<Rightarrow> world \<Rightarrow> (exn + dict list) \<times> world" where
  "fetch_all_records query =
     traced (SqlFetch query) (\<lambda>w.
       (case get_database_engine w of
          (Inl e, w1) \<Rightarrow> (Inl e, w1)
        | (Inr u, w1) \<Rightarrow>
            if sql_fault w1 query then (Inl ServiceError, w1)
            else (case sql_select (ts_repr w1) query (sql_rows w1) of
                    None \<Rightarrow> (Inl ServiceError, w1)
                  | Some rows \<Rightarrow> (Inr rows, w1))))"

definition execute_update :: "sql_stmt \<Rightarrow> world \<Rightarrow> (exn + unit) \<times> world" where
  "execute_update query =
     traced (SqlExecute query) (\<lambda>w.
       (case get_database_engine w of
          (Inl e, w1) \<Rightarrow> (Inl e, w1)
        | (Inr u, w1) \<Rightarrow>
            if sql_fault w1 query then (Inl ServiceError, w1)
            else (case sql_exec (sysutcdatetime w1) query (sql_rows w1) of
                    None \<Rightarrow> (Inl ServiceError, w1)
                  | Some rows \<Rightarrow> (Inr (), w1\<lparr>sql_rows := rows\<rparr>))))"

subsection \<open>shared/storage.py\<close>

fun split_on :: "char \<Rightarrow> string \<Rightarrow> string list" where
  "split_on sep [] = [[]]"
| "split_on sep (c # cs) =
     (if c = sep then [] # split_on sep cs
      else (case split_on sep cs of [] \<Rightarrow> [[c]] | p # ps \<Rightarrow> (c # p) # ps))"

definition parse_connection_string :: "string \<Rightarrow> (string \<times> string) list" where
  "parse_connection_string conn_str =
     (if conn_str = [] then []
      else fold (\<lambda>item parts.
                   if CHR ''='' \<in> set item
                   then dict_set (strip (takeWhile (\<lambda>c. c \<noteq> CHR ''='') item))
                                 (strip (tl (dropWhile (\<lambda>c. c \<noteq> CHR ''='') item))) parts
                   else parts)
                (split_on CHR '';'' conn_str) [])"

definition create_blob_client :: "world \<Rightarrow> exn + unit" where
  "create_blob_client w =
     (if \<not> str_truthy (getenv w ''AZURE_STORAGE_CONNECTION_STRING'') then Inl ValueError
      else if blob_fault w BlobConnect then Inl ValueError
      else Inr ())"

definition get_storage_container :: "world \<Rightarrow> string" where
  "get_storage_container w =
     (case getenv w ''AZURE_STORAGE_CONTAINER'' of None \<Rightarrow> ''assets'' | Some c \<Rightarrow> c)"

definition create_sas_token :: "string \<Rightarrow> string \<Rightarrow> world \<Rightarrow> (exn + string) \<times> world" where
  "create_sas_token container blob_name w =
     (let connection_string =
            (case getenv w ''AZURE_STORAGE_CONNECTION_STRING'' of None \<Rightarrow> [] | Some s \<Rightarrow> s);
          account_key =
            (case map_of (parse_connection_string connection_string) ''AccountKey'' of
               None \<Rightarrow> [] | Some k \<Rightarrow> k)
      in (case getenv w ''AZURE_STORAGE_ACCOUNT'' of
            None \<Rightarrow> (Inl ValueError, w)
          | Some account_name \<Rightarrow>
              if account_name = [] \<or> account_key = [] then (Inl ValueError, w)
              else traced (SasIssue container blob_name)
                     (\<lambda>w'. (generate_blob_sas w' account_name container blob_name account_key, w'))
                     w))"

definition build_blob_url :: "string \<Rightarrow> string \<Rightarrow> world \<Rightarrow> exn + string" where
  "build_blob_url container blob_name w =
     (case getenv w ''AZURE_STORAGE_ACCOUNT'' of
        None \<Rightarrow> Inl ValueError
      | Some account_name \<Rightarrow>
          if account_name = [] then Inl ValueError
          else Inr (''https://'' @ account_name @ ''.blob.core.windows.net/'' @ container
                    @ ''/'' @ blob_name))"

text \<open>The two calls on the container client that the delete handler makes.\<close>

definition list_blobs :: "string \<Rightarrow> world \<Rightarrow> (exn + string list) \<times> world" where
  "list_blobs name_starts_with =
     traced (BlobList name_starts_with) (\<lambda>w.
       if blob_fault w (ListBlobs name_starts_with) then (Inl ServiceError, w)
       else (Inr (filter (\<lambda>n. take (length name_starts_with) n = name_starts_with)
                         (blob_names w)), w))"

definition delete_blob :: "string \<Rightarrow> world \<Rightarrow> (exn + unit) \<times> world" where
  "delete_blob blob_name =
     traced (BlobDelete blob_name) (\<lambda>w.
       if blob_fault w (DeleteBlob blob_name) \<or> blob_name \<notin> set (blob_names w)
       then (Inl ServiceError, w)
       else (Inr (), w\<lparr>blob_names := removeAll blob_name (blob_names w)\<rparr>))"

subsection \<open>assets_create: POST /api/assets\<close>

text \<open>
  \<open>create_store\<close> is the part of \<open>main\<close> from the document-store write on,
  \<open>create_upload\<close> the part that draws the id and asks for the upload credential, and
  \<open>create_main\<close> the whole handler. An exception outside a \<open>try\<close> block escapes.
\<close>

definition create_store ::
  "string \<Rightarrow> pyval \<Rightarrow> pyval \<Rightarrow> int \<Rightarrow> string \<Rightarrow> string \<Rightarrow> world \<Rightarrow> outcome \<times> world" where
  "create_store asset_id fname ftype fsize burl upload_url w =
     (let cosmos_doc = [(''id'', PStr asset_id), (''fileName'', fname), (''fileType'', ftype),
                        (''uploadDate'', PStr (utcnow_iso w)), (''fileSize'', PInt fsize),
                        (''blobUrl'', PStr burl)];
          w1 = (case upsert_asset_doc cosmos_doc w of
                  (Inl e, w') \<Rightarrow> logging WARNING ''Failed to save to Cosmos DB'' w'
                | (Inr d, w') \<Rightarrow> w')
      in (case execute_update
                (InsertFileMetadata [(''id'', PStr asset_id), (''file_name'', fname),
                                     (''file_type'', ftype), (''file_size'', PInt fsize),
                                     (''blob_url'', PStr burl)]) w1 of
            (Inl e, w2) \<Rightarrow>
              (Response (text_response ''Failed to save asset metadata'' 500),
               logging ERROR ''Failed to save to SQL Database'' w2)
          | (Inr u, w2) \<Rightarrow>
              (json_response (PDict [(''id'', PStr asset_id), (''blobUrl'', PStr burl),
                                     (''uploadUrl'', PStr upload_url)]) 201,
               logging INFO ''Created asset'' w2)))"

definition create_upload :: "pyval \<Rightarrow> pyval \<Rightarrow> int \<Rightarrow> world \<Rightarrow> outcome \<times> world" where
  "create_upload fname ftype fsize w =
     (let asset_id = uuid4 w;
          container_name = get_storage_container w;
          blob_path = asset_id @ ''/'' @ py_str w fname
      in (case create_sas_token container_name blob_path w of
            (Inl e, w1) \<Rightarrow> (Raised e, w1)
          | (Inr sas_token, w1) \<Rightarrow>
              (case build_blob_url container_name blob_path w1 of
                 Inl e \<Rightarrow> (Raised e, w1)
               | Inr burl \<Rightarrow>
                   create_store asset_id fname ftype fsize burl (burl @ ''?'' @ sas_token) w1)))"

definition create_validate :: "pyval \<Rightarrow> world \<Rightarrow> outcome \<times> world" where
  "create_validate request_data w =
     (case request_data of
        PDict d \<Rightarrow>
          (let fname = dict_get d ''fileName'';
               ftype = dict_get d ''fileType'';
               fsize = dict_get d ''fileSize''
           in if \<not> (truthy fname \<and> truthy ftype \<and> truthy fsize)
              then (Response (text_response ''Missing required fields: fileName, fileType, fileSize'' 400),
                    logging ERROR ''Missing required fields in request'' w)
              else (case py_int fsize of
                      Inl e \<Rightarrow>
                        if e = ValueError \<or> e = TypeError
                        then (Response (text_response ''fileSize must be a valid integer'' 400),
                              logging ERROR ''Invalid fileSize'' w)
                        else (Raised e, w)
                    | Inr n \<Rightarrow> create_upload fname ftype n w))
      | _ \<Rightarrow> (Raised AttributeError, w))"

definition create_main :: "request \<Rightarrow> world \<Rightarrow> outcome \<times> world" where
  "create_main req w =
     (case require_api_key w (header_x_api_key req) of
        Inl e \<Rightarrow>
          (Response (text_response ''Unauthorized'' 401),
           logging WARNING ''Unauthorized access attempt'' w)
      | Inr u \<Rightarrow>
          (case get_json req of
             None \<Rightarrow>
               (Response (text_response ''Invalid JSON format'' 400),
                logging ERROR ''Invalid JSON in request body'' w)
           | Some request_data \<Rightarrow> create_validate request_data w))"

subsection \<open>assets_get: GET /api/assets/{id}\<close>

text \<open>
  \<open>merge_stores\<close> is the merge of both handlers that read one asset:
  \<open>result = cosmos_doc or {}\<close>, then \<open>result.update(sql_results[0])\<close> when the query
  returned a row.
\<close>

definition merge_stores :: "dict option \<Rightarrow> dict list \<Rightarrow> dict" where
  "merge_stores cosmos_doc sql_results =
     (let result = (case cosmos_doc of None \<Rightarrow> [] | Some d \<Rightarrow> d)
      in (case sql_results of [] \<Rightarrow> result | r # rs \<Rightarrow> dict_update result r))"

definition get_lookup :: "string \<Rightarrow> world \<Rightarrow> outcome \<times> world" where
  "get_lookup asset_id w =
     (case get_asset_doc asset_id w of
        (Inl e, w1) \<Rightarrow>
          (Response (text_response ''Internal server error'' 500),
           logging ERROR ''Failed to query databases'' w1)
      | (Inr cosmos_doc, w1) \<Rightarrow>
          (case fetch_all_records (SelectById [(''id'', PStr asset_id)]) w1 of
             (Inl e, w2) \<Rightarrow>
               (Response (text_response ''Internal server error'' 500),
                logging ERROR ''Failed to query databases'' w2)
           | (Inr sql_results, w2) \<Rightarrow>
               (let result = merge_stores cosmos_doc sql_results
                in if result = []
                   then (Response (text_response ''Not Found'' 404),
                         logging INFO ''Asset not found'' w2)
                   else (json_response (PDict result) 200,
                         logging INFO ''Retrieved asset'' w2))))"

definition get_main :: "request \<Rightarrow> world \<Rightarrow> outcome \<times> world" where
  "get_main req w =
     (case require_api_key w (header_x_api_key req) of
        Inl e \<Rightarrow>
          (Response (text_response ''Unauthorized'' 401),
           logging WARNING ''Unauthorized access attempt'' w)
      | Inr u \<Rightarrow>
          (case route_param_id req of
             None \<Rightarrow>
               (Response (text_response ''Asset ID is required'' 400),
                logging ERROR ''Missing asset ID in route'' w)
           | Some asset_id \<Rightarrow>
               if asset_id = []
               then (Response (text_response ''Asset ID is required'' 400),
                     logging ERROR ''Missing asset ID in route'' w)
               else get_lookup asset_id w))"

subsection \<open>assets_list: GET /api/assets\<close>

definition list_main :: "request \<Rightarrow> world \<Rightarrow> outcome \<times> world" where
  "list_main req w =
     (case require_api_key w (header_x_api_key req) of
        Inl e \<Rightarrow>
          (Response (text_response ''Unauthorized'' 401),
           logging WARNING ''Unauthorized access attempt to list assets'' w)
      | Inr u \<Rightarrow>
          (case fetch_all_records SelectAllByCreatedAtDesc w of
             (Inl e, w1) \<Rightarrow>
               (Response (text_response ''Internal server error'' 500),
                logging ERROR ''Failed to fetch assets from database'' w1)
           | (Inr assets, w1) \<Rightarrow>
               (json_response (PList (map PDict assets)) 200,
                logging INFO ''Retrieved assets'' w1)))"

subsection \<open>assets_update: PUT /api/assets/{id}\<close>

definition allowed_fields :: "string list" where
  "allowed_fields = [''fileName'', ''fileType'', ''fileSize'', ''blobUrl'', ''status'']"

definition field_mapping :: "(string \<times> string) list" where
  "field_mapping = [(''fileName'', ''file_name''), (''fileType'', ''file_type''),
                    (''fileSize'', ''file_size''), (''blobUrl'', ''blob_url'')]"

text \<open>The comprehension \<open>{k: v for k, v in update_data.items() if k in allowed_fields}\<close>.\<close>

definition fields_to_update :: "dict \<Rightarrow> dict" where
  "fields_to_update update_data =
     dict_update [] (filter (\<lambda>(k, v). k \<in> set allowed_fields) update_data)"

text \<open>
  The document-store step: read the document or start from \<open>{"id": asset_id}\<close>, apply the
  fields, upsert; any exception is logged and swallowed.
\<close>

definition update_cosmos :: "string \<Rightarrow> dict \<Rightarrow> world \<Rightarrow> world" where
  "update_cosmos asset_id accepted w =
     (case get_asset_doc asset_id w of
        (Inl e, w1) \<Rightarrow> logging WARNING ''Failed to update Cosmos DB'' w1
      | (Inr found, w1) \<Rightarrow>
          (let doc = (case found of
                        None \<Rightarrow> [(''id'', PStr asset_id)]
                      | Some d \<Rightarrow> if d = [] then [(''id'', PStr asset_id)] else d)
           in (case upsert_asset_doc (dict_update doc accepted) w1 of
                 (Inl e, w2) \<Rightarrow> logging WARNING ''Failed to update Cosmos DB'' w2
               | (Inr d, w2) \<Rightarrow> w2)))"

text \<open>
  One round of the loop that builds the UPDATE statement: the pair is \<open>sql_updates\<close> (the
  column of each \<open>c = :c\<close>) and \<open>sql_params\<close>.
\<close>

definition sql_assignment :: "string \<times> pyval \<Rightarrow> string list \<times> dict \<Rightarrow> string list \<times> dict" where
  "sql_assignment fv acc =
     (case fv of (field, v) \<Rightarrow>
      (case acc of (sql_updates, sql_params) \<Rightarrow>
        (case map_of field_mapping field of
           Some sql_field \<Rightarrow> (sql_updates @ [sql_field], dict_set sql_field v sql_params)
         | None \<Rightarrow>
             if field = ''status''
             then (sql_updates @ [''status''], dict_set ''status'' v sql_params)
             else (sql_updates, sql_params))))"

definition build_update :: "string \<Rightarrow> dict \<Rightarrow> string list \<times> dict" where
  "build_update asset_id accepted = fold sql_assignment accepted ([], [(''id'', PStr asset_id)])"

definition update_sql :: "string \<Rightarrow> dict \<Rightarrow> world \<Rightarrow> (exn + unit) \<times> world" where
  "update_sql asset_id accepted w =
     (case build_update asset_id accepted of
        (sql_updates, sql_params) \<Rightarrow>
          if sql_updates \<noteq> [] then execute_update (UpdateSet sql_updates sql_params) w
          else (Inr (), logging WARNING ''No SQL fields to update'' w))"

definition fetch_updated :: "string \<Rightarrow> dict \<Rightarrow> world \<Rightarrow> dict \<times> world" where
  "fetch_updated asset_id accepted w =
     (let fallback = dict_update [(''id'', PStr asset_id)] accepted
      in (case get_asset_doc asset_id w of
            (Inl e, w1) \<Rightarrow> (fallback, logging WARNING ''Failed to fetch updated record'' w1)
          | (Inr cosmos_doc, w1) \<Rightarrow>
              (case fetch_all_records (SelectById [(''id'', PStr asset_id)]) w1 of
                 (Inl e, w2) \<Rightarrow> (fallback, logging WARNING ''Failed to fetch updated record'' w2)
               | (Inr sql_results, w2) \<Rightarrow>
                   (let updated_doc = merge_stores cosmos_doc sql_results
                    in (if updated_doc = [] then fallback else updated_doc, w2)))))"

definition update_apply :: "string \<Rightarrow> dict \<Rightarrow> world \<Rightarrow> outcome \<times> world" where
  "update_apply asset_id accepted w =
     (case update_sql asset_id accepted (update_cosmos asset_id accepted w) of
        (Inl e, w1) \<Rightarrow>
          (Response (text_response ''Failed to update asset'' 500),
           logging ERROR ''Failed to update SQL Database'' w1)
      | (Inr u, w1) \<Rightarrow>
          (case fetch_updated asset_id accepted w1 of
             (updated_doc, w2) \<Rightarrow>
               (json_response (PDict updated_doc) 200, logging INFO ''Updated asset'' w2)))"

definition update_body :: "string \<Rightarrow> pyval \<Rightarrow> world \<Rightarrow> outcome \<times> world" where
  "update_body asset_id json w =
     (case (if truthy json then json else PDict []) of
        PDict update_data \<Rightarrow>
          (let accepted = fields_to_update update_data
           in if accepted = []
              then (Response (text_response ''No valid fields provided for update'' 400),
                    logging WARNING ''No valid fields to update'' w)
              else update_apply asset_id accepted w)
      | _ \<Rightarrow> (Raised AttributeError, w))"

definition update_main :: "request \<Rightarrow> world \<Rightarrow> outcome \<times> world" where
  "update_main req w =
     (case require_api_key w (header_x_api_key req) of
        Inl e \<Rightarrow>
          (Response (text_response ''Unauthorized'' 401),
           logging WARNING ''Unauthorized access attempt'' w)
      | Inr u \<Rightarrow>
          (case route_param_id req of
             None \<Rightarrow>
               (Response (text_response ''Asset ID is required'' 400),
                logging ERROR ''Missing asset ID in route'' w)
           | Some asset_id \<Rightarrow>
               if asset_id = []
               then (Response (text_response ''Asset ID is required'' 400),
                     logging ERROR ''Missing asset ID in route'' w)
               else (case get_json req of
                       None \<Rightarrow>
                         (Response (text_response ''Invalid JSON format'' 400),
                          logging ERROR ''Invalid JSON in request body'' w)
                     | Some json \<Rightarrow> update_body asset_id json w)))"

subsection \<open>assets_delete: DELETE /api/assets/{id}\<close>

fun delete_each :: "string list \<Rightarrow> world \<Rightarrow> world" where
  "delete_each [] w = w"
| "delete_each (blob_name # rest) w =
     delete_each rest
       (case delete_blob blob_name w of
          (Inl e, w1) \<Rightarrow> logging WARNING ''Failed to delete blob'' w1
        | (Inr u, w1) \<Rightarrow> logging INFO ''Deleted blob'' w1)"

definition delete_blobs :: "string \<Rightarrow> world \<Rightarrow> world" where
  "delete_blobs asset_id w =
     (case create_blob_client w of
        Inl e \<Rightarrow> logging ERROR ''Failed to delete blobs from storage'' w
      | Inr u \<Rightarrow>
          (case list_blobs (asset_id @ ''/'') w of
             (Inl e, w1) \<Rightarrow> logging ERROR ''Failed to delete blobs from storage'' w1
           | (Inr blobs_to_delete, w1) \<Rightarrow> delete_each blobs_to_delete w1))"

definition delete_cosmos :: "string \<Rightarrow> world \<Rightarrow> world" where
  "delete_cosmos asset_id w =
     (case delete_asset_doc asset_id w of
        (Inl e, w1) \<Rightarrow> logging WARNING ''Failed to delete from Cosmos DB'' w1
      | (Inr u, w1) \<Rightarrow> logging INFO ''Deleted asset from Cosmos DB'' w1)"

definition delete_records :: "string \<Rightarrow> world \<Rightarrow> outcome \<times> world" where
  "delete_records asset_id w =
     (case execute_update (DeleteById [(''id'', PStr asset_id)]) (delete_blobs asset_id w) of
        (Inl e, w1) \<Rightarrow>
          (Response (text_response ''Failed to delete asset from database'' 500),
           logging ERROR ''Failed to delete from SQL Database'' w1)
      | (Inr u, w1) \<Rightarrow>
          (json_response (PDict [(''deleted'', PBool True), (''id'', PStr asset_id)]) 200,
           logging INFO ''Successfully deleted asset''
             (delete_cosmos asset_id (logging INFO ''Deleted asset from SQL Database'' w1))))"

definition delete_main :: "request \<Rightarrow> world \<Rightarrow> outcome \<times> world" where
  "delete_main req w =
     (case require_api_key w (header_x_api_key req) of
        Inl e \<Rightarrow>
          (Response (text_response ''Unauthorized'' 401),
           logging WARNING ''Unauthorized access attempt'' w)
      | Inr u \<Rightarrow>
          (case route_param_id req of
             None \<Rightarrow>
               (Response (text_response ''Asset ID is required'' 400),
                logging ERROR ''Missing asset ID in route'' w)
           | Some asset_id \<Rightarrow>
               if asset_id = []
               then (Response (text_response ''Asset ID is required'' 400),
                     logging ERROR ''Missing asset ID in route'' w)
               else delete_records asset_id w))"

section \<open>Vocabulary of the properties\<close>

text \<open>
  What a handler did is read off the world it returns: the events and log entries it
  appended, and the contents of the stores.
\<close>

definition new_events :: "world \<Rightarrow> world \<Rightarrow> event list" where
  "new_events w w' = drop (length (trace w)) (trace w')"


fun call_of :: "event \<Rightarrow> call" where
  "call_of (Returned c) = c"
| "call_of (Threw c e) = c"

text \<open>No adapter was called and no store changed.\<close>

definition stores_untouched :: "world \<Rightarrow> world \<Rightarrow> bool" where
  "stores_untouched w w' =
     (trace w' = trace w \<and> cosmos_items w' = cosmos_items w \<and> sql_rows w' = sql_rows w
      \<and> blob_names w' = blob_names w)"

text \<open>The relational engine is there already or can be made.\<close>

definition sql_available :: "world \<Rightarrow> bool" where
  "sql_available w =
     (db_engine w \<or> (construct_connection_string w = Inr () \<and> \<not> create_engine_fault w))"

text \<open>An event of the blob store.\<close>

definition blob_call :: "event \<Rightarrow> bool" where
  "blob_call ev = (\<exists>x. call_of ev = BlobList x \<or> call_of ev = BlobDelete x)"

text \<open>The relational statements among the events, in the order they were executed.\<close>

fun executed_statements :: "event list \<Rightarrow> sql_stmt list" where
  "executed_statements [] = []"
| "executed_statements (ev # evs) =
     (case call_of ev of
        SqlExecute q \<Rightarrow> q # executed_statements evs
      | _ \<Rightarrow> executed_statements evs)"

text \<open>
  The keys of a JSON object body, and the column that the update handler writes an
  allow-listed field to: the one \<open>field_mapping\<close> gives, or the field's own name
  (\<open>status\<close>).
\<close>

definition body_keys :: "request \<Rightarrow> string set" where
  "body_keys req = (case get_json req of Some (PDict d) \<Rightarrow> fst ` set d | _ \<Rightarrow> {})"

definition column_of :: "string \<Rightarrow> string" where
  "column_of field = (case map_of field_mapping field of Some c \<Rightarrow> c | None \<Rightarrow> field)"

text \<open>
  \<open>kept cs r r'\<close>: the row \<open>r'\<close> agrees with \<open>r\<close> on every column that is not in \<open>cs\<close>.
\<close>

definition kept :: "string list \<Rightarrow> file_metadata \<Rightarrow> file_metadata \<Rightarrow> bool" where
  "kept cs r r' =
     ((''id'' \<notin> set cs \<longrightarrow> row_id r' = row_id r) \<and> (''user_id'' \<notin> set cs \<longrightarrow> user_id r' = user_id r)
   \<and> (''file_name'' \<notin> set cs \<longrightarrow> file_name r' = file_name r)
   \<and> (''file_type'' \<notin> set cs \<longrightarrow> file_type r' = file_type r)
   \<and> (''file_size'' \<notin> set cs \<longrightarrow> file_size r' = file_size r)
   \<and> (''blob_url'' \<notin> set cs \<longrightarrow> blob_url r' = blob_url r)
   \<and> (''status'' \<notin> set cs \<longrightarrow> status r' = status r)
   \<and> (''created_at'' \<notin> set cs \<longrightarrow> created_at r' = created_at r))"

subsection \<open>Concrete deployments and requests\<close>

text \<open>
  A configured deployment with empty stores, variants of it, and the requests that the
  properties below are instantiated with.
\<close>

definition demo_world :: world where
  "demo_world =
     \<lparr>environ = [''API_KEY'' \<mapsto> ''secret'',
                 ''COSMOS_ENDPOINT'' \<mapsto> ''https://db.example'',
                 ''COSMOS_KEY'' \<mapsto> ''ck'',
                 ''AZURE_STORAGE_ACCOUNT'' \<mapsto> ''acct'',
                 ''AZURE_STORAGE_CONNECTION_STRING'' \<mapsto> ''AccountName=acct;AccountKey=sk'',
                 ''SQL_SERVER'' \<mapsto> ''srv'', ''SQL_DATABASE'' \<mapsto> ''db'',
                 ''SQL_USERNAME'' \<mapsto> ''u'', ''SQL_PASSWORD'' \<mapsto> ''p''],
      container_ready = False, db_engine = False,
      cosmos_items = Map.empty, sql_rows = [], blob_names = [],
      cosmos_connect_fault = False, cosmos_fault = (\<lambda>c. False),
      create_engine_fault = False, sql_fault = (\<lambda>q. False), blob_fault = (\<lambda>b. False),
      generate_blob_sas = (\<lambda>a c b k. Inr ''sig=1''), str_of = (\<lambda>v. ''?''),
      uuid4 = ''a1'', utcnow_iso = ''2024-01-01T00:00:00+00:00'', sysutcdatetime = 100,
      ts_repr = (\<lambda>t. PInt t), trace = [], log = []\<rparr>"

definition demo_request :: "string option \<Rightarrow> string option \<Rightarrow> pyval option \<Rightarrow> request" where
  "demo_request key rid json = \<lparr>header_x_api_key = key, route_param_id = rid, get_json = json\<rparr>"



definition zero_size_request :: request where
  "zero_size_request = demo_request (Some ''secret'') None
     (Some (PDict [(''fileName'', PStr ''a.jpg''), (''fileType'', PStr ''image/jpeg''),
                   (''fileSize'', PInt 0)]))"

definition infinite_size_request :: request where
  "infinite_size_request = demo_request (Some ''secret'') None
     (Some (PDict [(''fileName'', PStr ''a.jpg''), (''fileType'', PStr ''image/jpeg''),
                   (''fileSize'', PFloat (FInf False))]))"

definition unknown_keys_request :: request where
  "unknown_keys_request = demo_request (Some ''secret'') (Some ''a1'')
     (Some (PDict [(''owner'', PStr ''me''), (''id'', PStr ''b2'')]))"

definition both_stores :: world where
  "both_stores = demo_world
     \<lparr>cosmos_items := [''a1'' \<mapsto> [(''id'', PStr ''a1''), (''fileName'', PStr ''cosmos.jpg''),
                                  (''note'', PStr ''kept'')]],
      sql_rows := [\<lparr>row_id = ''a1'', user_id = PNone, file_name = PStr ''sql.jpg'',
                     file_type = PStr ''image/jpeg'', file_size = PInt 12,
                     blob_url = PStr ''https://acct.blob.core.windows.net/assets/a1/sql.jpg'',
                     status = PStr ''pending'', created_at = 7\<rparr>]\<rparr>"

definition get_request :: request where
  "get_request = demo_request (Some ''secret'') (Some ''a1'') None"

definition three_rows :: world where
  "three_rows = demo_world
     \<lparr>sql_rows :=
        [\<lparr>row_id = ''old'', user_id = PNone, file_name = PStr ''o.jpg'', file_type = PStr ''image/jpeg'',
           file_size = PInt 1, blob_url = PStr ''u1'', status = PStr ''pending'', created_at = 10\<rparr>,
         \<lparr>row_id = ''new'', user_id = PNone, file_name = PStr ''n.jpg'', file_type = PStr ''image/jpeg'',
           file_size = PInt 2, blob_url = PStr ''u2'', status = PStr ''done'', created_at = 30\<rparr>,
         \<lparr>row_id = ''mid'', user_id = PNone, file_name = PStr ''m.jpg'', file_type = PStr ''image/jpeg'',
           file_size = PInt 3, blob_url = PStr ''u3'', status = PStr ''pending'', created_at = 20\<rparr>]\<rparr>"

definition list_request :: request where
  "list_request = demo_request (Some ''secret'') None None"

definition delete_request :: request where
  "delete_request = demo_request (Some ''secret'') (Some ''zz'') None"

definition status_request :: request where
  "status_request = demo_request (Some ''secret'') (Some ''a1'')
     (Some (PDict [(''status'', PStr ''done''), (''createdAt'', PStr ''1999-01-01'')]))"

text \<open>
  A deployment whose \<open>created_at\<close> column has the type of \<open>SYSUTCDATETIME()\<close>, the value
  the INSERT statement writes to it: the driver hands such a column back as a
  \<open>datetime\<close> object.
\<close>

definition datetime_column :: "world \<Rightarrow> world" where
  "datetime_column w = w\<lparr>ts_repr := (\<lambda>t. PObject ''datetime'')\<rparr>"

definition open_mode :: world where
  "open_mode = demo_world\<lparr>environ := (environ demo_world)(''API_KEY'' := None)\<rparr>"

section \<open>Properties\<close>

subsection \<open>What the adapters change\<close>

text \<open>
  Each adapter appends one event to the trace, only appends to the log, and leaves alone
  the stores it is not about. The definitions of the concrete deployment are evaluated with
  \<open>model_defs\<close>.
\<close>

lemmas model_defs = traced_def emit_def logging_def event_of_def getenv_def str_truthy_def
  get_container_def read_item_def upsert_item_def delete_item_def upsert_asset_doc_def
  get_asset_doc_def delete_asset_doc_def construct_connection_string_def get_database_engine_def
  fetch_all_records_def execute_update_def parse_connection_string_def create_blob_client_def
  get_storage_container_def create_sas_token_def build_blob_url_def list_blobs_def delete_blob_def
  insert_row_def strip_def is_space_def int_strip_def int_space_def json_response_def json_dumps_def text_response_def
  validate_api_key_def require_api_key_def dict_get_def py_str_def
  demo_world_def demo_request_def

lemma fst_traced [simp]: "fst (traced c f w) = fst (f w)"
  by (simp add: traced_def split_beta)

lemma snd_traced [simp]: "snd (traced c f w) = emit (event_of c (fst (f w))) (snd (f w))"
  by (simp add: traced_def split_beta)

lemma emit_fields [simp]:
  "trace (emit e w) = trace w @ [e]"
  "log (emit e w) = log w"
  "sql_rows (emit e w) = sql_rows w"
  "ts_repr (emit e w) = ts_repr w"
  "cosmos_items (emit e w) = cosmos_items w"
  by (simp_all add: emit_def)

lemma logging_fields [simp]:
  "trace (logging l m w) = trace w"
  "log (logging l m w) = log w @ [(l, m)]"
  "sql_rows (logging l m w) = sql_rows w"
  "ts_repr (logging l m w) = ts_repr w"
  "cosmos_items (logging l m w) = cosmos_items w"
  by (simp_all add: logging_def)

lemma get_container_fields [simp]:
  "trace (snd (get_container w)) = trace w"
  "sql_rows (snd (get_container w)) = sql_rows w"
  "ts_repr (snd (get_container w)) = ts_repr w"
  "cosmos_items (snd (get_container w)) = cosmos_items w"
  by (simp_all add: get_container_def)


lemma get_database_engine_fields [simp]:
  "trace (snd (get_database_engine w)) = trace w"
  "sql_rows (snd (get_database_engine w)) = sql_rows w"
  "ts_repr (snd (get_database_engine w)) = ts_repr w"
  "cosmos_items (snd (get_database_engine w)) = cosmos_items w"
  by (simp_all add: get_database_engine_def split: sum.splits)


lemma upsert_asset_doc_trace [simp]:
  "trace (snd (upsert_asset_doc doc w)) =
     trace w @ [event_of (CosmosUpsert doc) (fst (upsert_asset_doc doc w))]"
  by (simp add: upsert_asset_doc_def upsert_item_def split_beta
      split: sum.splits option.splits pyval.splits)

lemma upsert_asset_doc_fields [simp]:
  "sql_rows (snd (upsert_asset_doc doc w)) = sql_rows w"
  "ts_repr (snd (upsert_asset_doc doc w)) = ts_repr w"
  by (simp_all add: upsert_asset_doc_def upsert_item_def split_beta
      split: sum.splits option.splits pyval.splits)


lemma execute_update_trace [simp]:
  "trace (snd (execute_update q w)) =
     trace w @ [event_of (SqlExecute q) (fst (execute_update q w))]"
  by (simp add: execute_update_def split_beta split: sum.splits option.splits)

lemma execute_update_fields [simp]:
  "ts_repr (snd (execute_update q w)) = ts_repr w"
  "cosmos_items (snd (execute_update q w)) = cosmos_items w"
  by (simp_all add: execute_update_def split_beta split: sum.splits option.splits)



lemma create_sas_token_log [simp]: "log (snd (create_sas_token c b w)) = log w"
  by (simp add: create_sas_token_def Let_def split: option.splits)

lemma json_response_strings [simp]:
  "json_response (PDict [(a, PStr x), (b, PStr y), (c, PStr z)]) code =
     Response \<lparr>body = Json (PDict [(a, PStr x), (b, PStr y), (c, PStr z)]), status_code = code,
               mimetype = ''application/json''\<rparr>"
  by (simp add: json_response_def json_dumps_def)


subsection \<open>The request gate\<close>

lemma validate_api_key_iff:
  "validate_api_key w k \<longleftrightarrow> \<not> str_truthy (getenv w ''API_KEY'') \<or> k = getenv w ''API_KEY''"
  by (auto simp: validate_api_key_def Let_def str_truthy_def split: option.splits)

lemma denied_handlers:
  assumes "\<not> validate_api_key w (header_x_api_key req)"
  shows "\<forall>h \<in> {create_main, get_main, list_main, update_main, delete_main}.
           (\<exists>r. fst (h req w) = Response r \<and> status_code r = 401)
           \<and> stores_untouched w (snd (h req w))"
  using assms
  by (simp add: create_main_def get_main_def list_main_def update_main_def delete_main_def
      require_api_key_def stores_untouched_def text_response_def logging_def)

text \<open>
  A request that the gate lets through is never answered 401: every other response of the
  five handlers has another status.
\<close>

lemma create_store_not_401:
  "fst (create_store a f t s b u w) = Response r \<Longrightarrow> status_code r \<noteq> 401"
  by (auto simp add: create_store_def Let_def split_beta text_response_def split: sum.splits)

lemma create_upload_not_401:
  "fst (create_upload f t s w) = Response r \<Longrightarrow> status_code r \<noteq> 401"
  by (auto simp add: create_upload_def Let_def split_beta dest: create_store_not_401
      split: sum.splits)

lemma create_validate_not_401:
  "fst (create_validate d w) = Response r \<Longrightarrow> status_code r \<noteq> 401"
  by (auto simp add: create_validate_def Let_def text_response_def dest: create_upload_not_401
      split: pyval.splits sum.splits if_splits)

lemma json_response_status:
  "json_response v code = Response r \<Longrightarrow> status_code r = code"
  by (auto simp add: json_response_def json_dumps_def split: if_splits)

lemma get_lookup_not_401:
  "fst (get_lookup aid w) = Response r \<Longrightarrow> status_code r \<noteq> 401"
  by (auto simp add: get_lookup_def Let_def split_beta text_response_def
      dest: json_response_status split: sum.splits if_splits)

lemma update_apply_not_401:
  "fst (update_apply aid acc w) = Response r \<Longrightarrow> status_code r \<noteq> 401"
  by (auto simp add: update_apply_def Let_def split_beta text_response_def
      dest: json_response_status split: sum.splits if_splits)

lemma update_body_not_401:
  "fst (update_body aid j w) = Response r \<Longrightarrow> status_code r \<noteq> 401"
  by (auto simp add: update_body_def Let_def text_response_def dest: update_apply_not_401
      split: pyval.splits if_splits)

lemma delete_records_not_401:
  "fst (delete_records aid w) = Response r \<Longrightarrow> status_code r \<noteq> 401"
  by (auto simp add: delete_records_def Let_def split_beta text_response_def
      dest: json_response_status split: sum.splits if_splits)

lemma allowed_handlers:
  assumes "validate_api_key w (header_x_api_key req)"
  shows "\<forall>h \<in> {create_main, get_main, list_main, update_main, delete_main}.
           \<forall>r. fst (h req w) = Response r \<longrightarrow> status_code r \<noteq> 401"
proof -
  have c: "fst (create_main req w) = Response r \<Longrightarrow> status_code r \<noteq> 401" for r
    using assms
    by (auto simp add: create_main_def require_api_key_def text_response_def
        dest: create_validate_not_401 split: option.splits)
  have g: "fst (get_main req w) = Response r \<Longrightarrow> status_code r \<noteq> 401" for r
    using assms
    by (auto simp add: get_main_def require_api_key_def text_response_def
        dest: get_lookup_not_401 split: option.splits if_splits)
  have l: "fst (list_main req w) = Response r \<Longrightarrow> status_code r \<noteq> 401" for r
    using assms
    by (auto simp add: list_main_def require_api_key_def text_response_def split_beta
        dest: json_response_status split: sum.splits)
  have u: "fst (update_main req w) = Response r \<Longrightarrow> status_code r \<noteq> 401" for r
    using assms
    by (auto simp add: update_main_def require_api_key_def text_response_def
        dest: update_body_not_401 split: option.splits if_splits)
  have d: "fst (delete_main req w) = Response r \<Longrightarrow> status_code r \<noteq> 401" for r
    using assms
    by (auto simp add: delete_main_def require_api_key_def text_response_def
        dest: delete_records_not_401 split: option.splits if_splits)
  show ?thesis using c g l u d by blast
qed

lemma require_api_key_eq:
  "require_api_key w k =
     (if \<not> str_truthy (getenv w ''API_KEY'') \<or> k = getenv w ''API_KEY'' then Inr ()
      else Inl AuthenticationError)"
  by (simp add: require_api_key_def validate_api_key_iff)

text \<open>
  C8. The gate allows a request exactly when no API key is configured (\<open>API_KEY\<close> unset
  or empty) or the supplied \<open>x-api-key\<close> equals the configured value: then
  \<open>require_api_key\<close> returns and none of the five handlers answers 401. In every other
  case \<open>require_api_key\<close> raises \<open>AuthenticationError\<close>, and each of the five handlers
  answers 401, calls no adapter and leaves the three stores as they were.
\<close>

theorem request_gate:
  "(validate_api_key w k \<longleftrightarrow> \<not> str_truthy (getenv w ''API_KEY'') \<or> k = getenv w ''API_KEY'')
   \<and> require_api_key w k =
       (if \<not> str_truthy (getenv w ''API_KEY'') \<or> k = getenv w ''API_KEY'' then Inr ()
        else Inl AuthenticationError)
   \<and> (\<forall>h \<in> {create_main, get_main, list_main, update_main, delete_main}.
         if \<not> str_truthy (getenv w ''API_KEY'') \<or> header_x_api_key req = getenv w ''API_KEY''
         then \<forall>r. fst (h req w) = Response r \<longrightarrow> status_code r \<noteq> 401
         else (\<exists>r. fst (h req w) = Response r \<and> status_code r = 401)
              \<and> stores_untouched w (snd (h req w)))"
proof (intro conjI)
  show "validate_api_key w k \<longleftrightarrow> \<not> str_truthy (getenv w ''API_KEY'') \<or> k = getenv w ''API_KEY''"
    by (rule validate_api_key_iff)
  show "require_api_key w k =
       (if \<not> str_truthy (getenv w ''API_KEY'') \<or> k = getenv w ''API_KEY'' then Inr ()
        else Inl AuthenticationError)"
    by (rule require_api_key_eq)
  show "\<forall>h \<in> {create_main, get_main, list_main, update_main, delete_main}.
         if \<not> str_truthy (getenv w ''API_KEY'') \<or> header_x_api_key req = getenv w ''API_KEY''
         then \<forall>r. fst (h req w) = Response r \<longrightarrow> status_code r \<noteq> 401
         else (\<exists>r. fst (h req w) = Response r \<and> status_code r = 401)
              \<and> stores_untouched w (snd (h req w))"
  proof (cases "validate_api_key w (header_x_api_key req)")
    case True
    then have "\<not> str_truthy (getenv w ''API_KEY'') \<or> header_x_api_key req = getenv w ''API_KEY''"
      by (simp add: validate_api_key_iff)
    with allowed_handlers [OF True] show ?thesis by simp
  next
    case False
    then have "\<not> (\<not> str_truthy (getenv w ''API_KEY'') \<or> header_x_api_key req = getenv w ''API_KEY'')"
      by (simp add: validate_api_key_iff)
    with denied_handlers [OF False] show ?thesis by simp
  qed
qed

theorem request_gate_witness:
  "validate_api_key open_mode None \<and> require_api_key open_mode None = Inr ()
   \<and> validate_api_key demo_world (Some ''secret'')
   \<and> require_api_key demo_world (Some ''secret'') = Inr ()
   \<and> fst (get_main (demo_request (Some ''secret'') (Some ''a1'') None) demo_world)
       = Response (text_response ''Not Found'' 404)
   \<and> fst (get_main (demo_request None (Some ''a1'') None) open_mode)
       = Response (text_response ''Not Found'' 404)
   \<and> \<not> validate_api_key demo_world (Some ''guess'')
   \<and> require_api_key demo_world (Some ''guess'') = Inl AuthenticationError
   \<and> \<not> validate_api_key demo_world None
   \<and> (\<exists>r. fst (get_main (demo_request (Some ''guess'') (Some ''a1'') None) demo_world) = Response r
           \<and> status_code r = 401)
   \<and> stores_untouched demo_world
        (snd (get_main (demo_request (Some ''guess'') (Some ''a1'') None) demo_world))"
proof -
  have env: "getenv demo_world ''API_KEY'' = Some ''secret''" "getenv open_mode ''API_KEY'' = None"
    by (simp_all add: demo_world_def open_mode_def getenv_def)
  have found: "fst (get_main (demo_request (Some ''secret'') (Some ''a1'') None) demo_world)
       = Response (text_response ''Not Found'' 404)"
    "fst (get_main (demo_request None (Some ''a1'') None) open_mode)
       = Response (text_response ''Not Found'' 404)"
    by (simp_all add: get_main_def get_lookup_def merge_stores_def open_mode_def model_defs Let_def)
  from request_gate [of demo_world "Some ''guess''" "demo_request (Some ''guess'') (Some ''a1'') None"]
    request_gate [of demo_world "Some ''secret''" "demo_request (Some ''secret'') (Some ''a1'') None"]
    request_gate [of demo_world None "demo_request (Some ''secret'') (Some ''a1'') None"]
    request_gate [of open_mode None "demo_request None (Some ''a1'') None"]
  show ?thesis using found by (simp add: env str_truthy_def demo_request_def)
qed

subsection \<open>Create\<close>








lemma stores_untouched_logging [simp]: "stores_untouched w (logging l m w)"
  by (simp add: stores_untouched_def logging_def)

text \<open>
  C10. For an authenticated create request with a JSON object body in which one of
  \<open>fileName\<close>, \<open>fileType\<close>, \<open>fileSize\<close> is present with a falsy value, the handler
  answers 400 with the message for missing fields and touches no store: the check is on
  truthiness. The integer 0 is falsy although \<open>int(0)\<close> succeeds.
\<close>

theorem create_falsy_field_is_missing:
  assumes "validate_api_key w (header_x_api_key req)"
    and "get_json req = Some (PDict d)"
    and "\<exists>k \<in> {''fileName'', ''fileType'', ''fileSize''}. \<exists>v. map_of d k = Some v \<and> \<not> truthy v"
  shows "create_main req w =
           (Response (text_response ''Missing required fields: fileName, fileType, fileSize'' 400),
            logging ERROR ''Missing required fields in request'' w)
         \<and> stores_untouched w (snd (create_main req w))
         \<and> \<not> truthy (PInt 0) \<and> py_int (PInt 0) = Inr 0"
proof -
  from assms(3) have "\<not> (truthy (dict_get d ''fileName'') \<and> truthy (dict_get d ''fileType'')
                         \<and> truthy (dict_get d ''fileSize''))"
    by (auto simp: dict_get_def)
  then show ?thesis using assms(1,2)
    by (simp add: create_main_def require_api_key_def create_validate_def Let_def
        stores_untouched_def logging_def)
qed

theorem create_falsy_field_is_missing_witness:
  "validate_api_key demo_world (header_x_api_key zero_size_request)
   \<and> map_of [(''fileName'', PStr ''a.jpg''), (''fileType'', PStr ''image/jpeg''),
              (''fileSize'', PInt 0)] ''fileSize'' = Some (PInt 0)
   \<and> fst (create_main zero_size_request demo_world) =
       Response (text_response ''Missing required fields: fileName, fileType, fileSize'' 400)
   \<and> stores_untouched demo_world (snd (create_main zero_size_request demo_world))"
proof -
  have auth: "validate_api_key demo_world (header_x_api_key zero_size_request)"
    by (simp add: zero_size_request_def model_defs)
  have body: "get_json zero_size_request =
      Some (PDict [(''fileName'', PStr ''a.jpg''), (''fileType'', PStr ''image/jpeg''),
                   (''fileSize'', PInt 0)])"
    by (simp add: zero_size_request_def demo_request_def)
  have falsy: "\<exists>k \<in> {''fileName'', ''fileType'', ''fileSize''}. \<exists>v.
      map_of [(''fileName'', PStr ''a.jpg''), (''fileType'', PStr ''image/jpeg''),
              (''fileSize'', PInt 0)] k = Some v \<and> \<not> truthy v"
    by simp
  from create_falsy_field_is_missing [OF auth body falsy] auth show ?thesis by simp
qed

text \<open>
  C7. A \<open>fileSize\<close> that is a float infinity (the JSON number \<open>1e999\<close>) is truthy and
  \<open>int\<close> raises \<open>OverflowError\<close> on it, which the handler's
  \<open>except (ValueError, TypeError)\<close> does not catch: the authenticated request below makes
  the handler raise instead of answering 400. No store is touched and no credential issued.
\<close>

theorem create_infinite_fileSize_raises:
  "truthy (PFloat (FInf False)) \<and> py_int (PFloat (FInf False)) = Inl OverflowError
   \<and> create_main infinite_size_request demo_world = (Raised OverflowError, demo_world)"
  by (simp add: create_main_def create_validate_def infinite_size_request_def model_defs Let_def)

text \<open>
  For the two exceptions that the handler does catch, the answer is 400 and nothing else
  happens.
\<close>

lemma create_unparsable_fileSize:
  assumes "validate_api_key w (header_x_api_key req)"
    and "get_json req = Some (PDict d)"
    and "truthy (dict_get d ''fileName'')" "truthy (dict_get d ''fileType'')"
    and "truthy (dict_get d ''fileSize'')"
    and "py_int (dict_get d ''fileSize'') = Inl e"
  shows "create_main req w =
           (if e = ValueError \<or> e = TypeError
            then (Response (text_response ''fileSize must be a valid integer'' 400),
                  logging ERROR ''Invalid fileSize'' w)
            else (Raised e, w))"
  using assms
  by (simp add: create_main_def require_api_key_def create_validate_def Let_def)

subsection \<open>Update: the allow-list\<close>

lemma fields_to_update_filter:
  "fields_to_update (filter (\<lambda>(k, v). k \<in> set allowed_fields) d) = fields_to_update d"
  by (simp add: fields_to_update_def)

lemma dict_set_not_Nil [simp]: "dict_set k v d \<noteq> []"
  by (cases d) auto

lemma fold_dict_set_not_Nil: "e \<noteq> [] \<or> d \<noteq> [] \<Longrightarrow> fold (\<lambda>(k, v). dict_set k v) e d \<noteq> []"
  by (induction e arbitrary: d) (auto simp: split_beta)

lemma dict_update_Nil_iff [simp]: "dict_update d e = [] \<longleftrightarrow> d = [] \<and> e = []"
  using fold_dict_set_not_Nil [of e d] by (auto simp: dict_update_def)

lemma fields_to_update_Nil_iff:
  "fields_to_update d = [] \<longleftrightarrow> (\<forall>k \<in> set allowed_fields. k \<notin> fst ` set d)"
  by (auto simp: fields_to_update_def filter_empty_conv image_iff)

lemma update_body_dict:
  "update_body aid (PDict d) w =
     (if fields_to_update d = []
      then (Response (text_response ''No valid fields provided for update'' 400),
            logging WARNING ''No valid fields to update'' w)
      else update_apply aid (fields_to_update d) w)"
  by (cases "d = []") (simp_all add: update_body_def Let_def fields_to_update_def dict_update_def)

text \<open>
  C5. For an update request with a JSON object body: when the request is authenticated and
  no key of the body is in the allow-list, the handler answers 400, calls no adapter and
  leaves the stores as they were (with an id in the route, the 400 is the one for no valid
  fields); and whatever the body, the handler does exactly what it does on the body
  restricted to the allow-listed keys, so a key outside the allow-list reaches neither
  store.
\<close>

theorem update_allow_list:
  assumes "get_json req = Some (PDict d)"
  shows "(validate_api_key w (header_x_api_key req)
          \<and> (\<forall>k \<in> set allowed_fields. k \<notin> fst ` set d) \<longrightarrow>
            (\<exists>r. fst (update_main req w) = Response r \<and> status_code r = 400)
            \<and> stores_untouched w (snd (update_main req w)))
       \<and> (validate_api_key w (header_x_api_key req) \<and> route_param_id req = Some aid \<and> aid \<noteq> []
          \<and> (\<forall>k \<in> set allowed_fields. k \<notin> fst ` set d) \<longrightarrow>
            update_main req w =
              (Response (text_response ''No valid fields provided for update'' 400),
               logging WARNING ''No valid fields to update'' w))
       \<and> update_main req w =
           update_main (req\<lparr>get_json := Some (PDict (filter (\<lambda>(k, v). k \<in> set allowed_fields) d))\<rparr>) w"
proof (intro conjI impI)
  assume a: "validate_api_key w (header_x_api_key req)
          \<and> (\<forall>k \<in> set allowed_fields. k \<notin> fst ` set d)"
  then have "fields_to_update d = []" by (simp add: fields_to_update_Nil_iff)
  with a assms show "\<exists>r. fst (update_main req w) = Response r \<and> status_code r = 400"
    and "stores_untouched w (snd (update_main req w))"
    by (simp_all add: update_main_def require_api_key_def update_body_dict text_response_def
        split: option.splits)
next
  assume a: "validate_api_key w (header_x_api_key req) \<and> route_param_id req = Some aid \<and> aid \<noteq> []
          \<and> (\<forall>k \<in> set allowed_fields. k \<notin> fst ` set d)"
  then have "fields_to_update d = []" by (simp add: fields_to_update_Nil_iff)
  with a assms show m: "update_main req w =
              (Response (text_response ''No valid fields provided for update'' 400),
               logging WARNING ''No valid fields to update'' w)"
    by (simp add: update_main_def require_api_key_def update_body_dict)
next
  show "update_main req w =
           update_main (req\<lparr>get_json := Some (PDict (filter (\<lambda>(k, v). k \<in> set allowed_fields) d))\<rparr>) w"
    using assms
    by (simp add: update_main_def update_body_dict fields_to_update_filter
        split: sum.splits option.splits)
qed

theorem update_allow_list_witness:
  "get_json unknown_keys_request = Some (PDict [(''owner'', PStr ''me''), (''id'', PStr ''b2'')])
   \<and> validate_api_key demo_world (header_x_api_key unknown_keys_request)
   \<and> route_param_id unknown_keys_request = Some ''a1''
   \<and> filter (\<lambda>(k, v). k \<in> set allowed_fields) [(''owner'', PStr ''me''), (''id'', PStr ''b2'')] = []
   \<and> fst (update_main unknown_keys_request demo_world) =
       Response (text_response ''No valid fields provided for update'' 400)
   \<and> stores_untouched demo_world (snd (update_main unknown_keys_request demo_world))"
proof -
  have body: "get_json unknown_keys_request =
      Some (PDict [(''owner'', PStr ''me''), (''id'', PStr ''b2'')])"
    by (simp add: unknown_keys_request_def demo_request_def)
  have auth: "validate_api_key demo_world (header_x_api_key unknown_keys_request)"
    by (simp add: unknown_keys_request_def model_defs)
  have rid: "route_param_id unknown_keys_request = Some ''a1''"
    by (simp add: unknown_keys_request_def demo_request_def)
  have none: "\<forall>k \<in> set allowed_fields. k \<notin> fst ` set [(''owner'', PStr ''me''), (''id'', PStr ''b2'')]"
    by (simp add: allowed_fields_def)
  from update_allow_list [OF body, of demo_world "''a1''"] auth rid none
  show ?thesis using body by (simp add: allowed_fields_def)
qed

subsection \<open>Dictionaries\<close>

lemma map_of_dict_set [simp]: "map_of (dict_set k v d) = (map_of d)(k \<mapsto> v)"
  by (induction d) (auto simp: fun_eq_iff)

lemma map_of_fold_dict_set:
  "distinct (map fst e) \<Longrightarrow>
   map_of (fold (\<lambda>(k, v). dict_set k v) e d) = map_of d ++ map_of e"
proof (induction e arbitrary: d)
  case Nil
  then show ?case by simp
next
  case (Cons p e)
  obtain k v where p: "p = (k, v)" by (cases p)
  from Cons.prems have "k \<notin> fst ` set e" "distinct (map fst e)" by (auto simp: p)
  then have "map_of e k = None" by (simp add: map_of_eq_None_iff)
  with Cons.IH [OF \<open>distinct (map fst e)\<close>, of "dict_set k v d"] show ?case
    by (auto simp: p fun_eq_iff map_add_def split: option.splits)
qed

lemma map_of_dict_update:
  "distinct (map fst e) \<Longrightarrow> map_of (dict_update d e) = map_of d ++ map_of e"
  by (simp add: dict_update_def map_of_fold_dict_set)

lemma distinct_select_columns [simp]: "distinct (map fst (select_columns repr r))"
  by (simp add: select_columns_def)

lemma select_columns_not_Nil [simp]: "select_columns repr r \<noteq> []"
  by (simp add: select_columns_def)

subsection \<open>Get\<close>

lemma get_asset_doc_trace [simp]:
  "trace (snd (get_asset_doc aid w)) =
     trace w @ [event_of (CosmosRead aid) (fst (get_asset_doc aid w))]"
  by (simp add: get_asset_doc_def read_item_def split_beta split: sum.splits option.splits)

lemma get_asset_doc_fields [simp]:
  "sql_rows (snd (get_asset_doc aid w)) = sql_rows w"
  "ts_repr (snd (get_asset_doc aid w)) = ts_repr w"
  "cosmos_items (snd (get_asset_doc aid w)) = cosmos_items w"
  by (simp_all add: get_asset_doc_def read_item_def split_beta split: sum.splits option.splits)

lemma get_asset_doc_value:
  "fst (get_asset_doc aid w) = Inr x \<Longrightarrow> x = cosmos_items w aid"
  by (auto simp add: get_asset_doc_def read_item_def split_beta
      split: sum.splits option.splits if_splits)

lemma fetch_all_records_trace [simp]:
  "trace (snd (fetch_all_records q w)) =
     trace w @ [event_of (SqlFetch q) (fst (fetch_all_records q w))]"
  by (simp add: fetch_all_records_def split_beta split: sum.splits option.splits)

lemma fetch_all_records_fields [simp]:
  "sql_rows (snd (fetch_all_records q w)) = sql_rows w"
  "ts_repr (snd (fetch_all_records q w)) = ts_repr w"
  "cosmos_items (snd (fetch_all_records q w)) = cosmos_items w"
  by (simp_all add: fetch_all_records_def split_beta split: sum.splits option.splits)

lemma fetch_all_records_value:
  "fst (fetch_all_records q w) = Inr rows \<Longrightarrow> sql_select (ts_repr w) q (sql_rows w) = Some rows"
  by (auto simp add: fetch_all_records_def split_beta
      split: sum.splits option.splits if_splits)

lemma json_response_cases:
  "json_response v code =
     (if serializable v
      then Response \<lparr>body = Json v, status_code = code, mimetype = ''application/json''\<rparr>
      else Raised TypeError)"
  by (simp add: json_response_def json_dumps_def)

lemma merge_stores_map:
  "map_of (merge_stores doc (map (select_columns repr) rows)) =
     map_of (case doc of None \<Rightarrow> [] | Some d \<Rightarrow> d)
       ++ (case rows of [] \<Rightarrow> Map.empty | r # rest \<Rightarrow> map_of (select_columns repr r))"
  by (cases rows) (simp_all add: merge_stores_def map_of_dict_update)

lemma merge_stores_Nil_iff:
  "merge_stores doc (map (select_columns repr) rows) = [] \<longleftrightarrow>
     (case doc of None \<Rightarrow> [] | Some d \<Rightarrow> d) = [] \<and> rows = []"
  by (cases rows) (simp_all add: merge_stores_def)

lemma merge_stores_document_only:
  "merge_stores doc [] = (case doc of None \<Rightarrow> [] | Some d \<Rightarrow> d)"
  by (simp add: merge_stores_def)

lemma get_lookup_effect:
  assumes "get_lookup aid w = (out, w')"
  shows "new_events w w' =
           event_of (CosmosRead aid) (fst (get_asset_doc aid w))
           # (case fst (get_asset_doc aid w) of
                Inl e \<Rightarrow> []
              | Inr d \<Rightarrow> [event_of (SqlFetch (SelectById [(''id'', PStr aid)]))
                            (fst (fetch_all_records (SelectById [(''id'', PStr aid)])
                                   (snd (get_asset_doc aid w))))])"
    and "\<And>d rows. fst (get_asset_doc aid w) = Inr d \<Longrightarrow>
           fst (fetch_all_records (SelectById [(''id'', PStr aid)]) (snd (get_asset_doc aid w)))
             = Inr rows \<Longrightarrow>
           out = (if merge_stores d rows = [] then Response (text_response ''Not Found'' 404)
                  else json_response (PDict (merge_stores d rows)) 200)"
  using assms
  by (auto simp add: get_lookup_def split_beta Let_def new_events_def
      split: sum.splits if_splits)

lemma event_of_Returned_iff: "event_of c r = Returned c' \<longleftrightarrow> c = c' \<and> (\<exists>x. r = Inr x)"
  by (cases r) (auto simp: event_of_def)

lemma event_of_Threw_iff: "event_of c r = Threw c' e \<longleftrightarrow> c = c' \<and> r = Inl e"
  by (cases r) (auto simp: event_of_def)

lemma get_main_lookup:
  assumes "validate_api_key w (header_x_api_key req)"
    and "route_param_id req = Some aid" "aid \<noteq> []"
  shows "get_main req w = get_lookup aid w"
  using assms by (simp add: get_main_def require_api_key_def)

text \<open>
  For an authenticated get request with an id, when both reads return: the handler
  merges the document (or nothing) with the first relational row of that id (if any), the
  row's value standing wherever both define a key; it answers 404 exactly when the merge is
  empty, that is with no document and no row, and otherwise hands the merge to
  \<open>json.dumps\<close>, which gives the 200 response when it can encode every value of the
  merge. With no row the merge is the document.
\<close>

lemma get_main_merge:
  assumes "validate_api_key w (header_x_api_key req)"
    and "route_param_id req = Some aid" "aid \<noteq> []"
    and "get_main req w = (out, w')"
    and "Returned (CosmosRead aid) \<in> set (new_events w w')"
    and "Returned (SqlFetch (SelectById [(''id'', PStr aid)])) \<in> set (new_events w w')"
  shows "\<exists>merged.
           (let doc = (case cosmos_items w aid of None \<Rightarrow> [] | Some d \<Rightarrow> d);
                rows = filter (\<lambda>r. row_id r = aid) (sql_rows w)
            in map_of merged =
                 map_of doc ++ (case rows of [] \<Rightarrow> Map.empty
                                | r # rest \<Rightarrow> map_of (select_columns (ts_repr w) r))
               \<and> (merged = [] \<longleftrightarrow> doc = [] \<and> rows = [])
               \<and> (rows = [] \<longrightarrow> merged = doc))
         \<and> (merged = [] \<longrightarrow> out = Response (text_response ''Not Found'' 404))
         \<and> (merged \<noteq> [] \<longrightarrow> out = json_response (PDict merged) 200)
         \<and> (merged \<noteq> [] \<and> serializable (PDict merged) \<longrightarrow>
               out = Response \<lparr>body = Json (PDict merged), status_code = 200,
                               mimetype = ''application/json''\<rparr>)"
proof -
  let ?q = "SelectById [(''id'', PStr aid)]"
  let ?rC = "fst (get_asset_doc aid w)"
  let ?w1 = "snd (get_asset_doc aid w)"
  let ?rF = "fst (fetch_all_records ?q ?w1)"
  let ?rows = "filter (\<lambda>r. row_id r = aid) (sql_rows w)"
  have run: "get_lookup aid w = (out, w')"
    using get_main_lookup [OF assms(1-3)] assms(4) by simp
  note ev = get_lookup_effect(1) [OF run]
  obtain d where d: "?rC = Inr d"
    using assms(5) by (cases ?rC) (auto simp: ev event_of_def split: sum.splits)
  obtain rows where rows: "?rF = Inr rows"
    using assms(6) d by (cases ?rF) (auto simp: ev event_of_def)
  have dv: "d = cosmos_items w aid" using get_asset_doc_value [OF d] .
  have "sql_select (ts_repr w) ?q (sql_rows w) = Some rows"
    using fetch_all_records_value [OF rows] by simp
  then have rv: "rows = map (select_columns (ts_repr w)) ?rows" by auto
  let ?merged = "merge_stores d rows"
  have out: "out = (if ?merged = [] then Response (text_response ''Not Found'' 404)
                    else json_response (PDict ?merged) 200)"
    using get_lookup_effect(2) [OF run d rows] .
  have m1: "map_of ?merged =
      map_of (case cosmos_items w aid of None \<Rightarrow> [] | Some d \<Rightarrow> d)
        ++ (case ?rows of [] \<Rightarrow> Map.empty | r # rest \<Rightarrow> map_of (select_columns (ts_repr w) r))"
    unfolding rv dv by (rule merge_stores_map)
  have m2: "?merged = [] \<longleftrightarrow>
      (case cosmos_items w aid of None \<Rightarrow> [] | Some d \<Rightarrow> d) = [] \<and> ?rows = []"
    unfolding rv dv by (rule merge_stores_Nil_iff)
  have m3: "?rows = [] \<longrightarrow> ?merged = (case cosmos_items w aid of None \<Rightarrow> [] | Some d \<Rightarrow> d)"
    by (simp add: rv dv merge_stores_document_only)
  show ?thesis
    apply (rule exI [of _ ?merged])
    apply (simp only: Let_def)
    apply (intro conjI)
         apply (rule m1)
        apply (rule m2)
       apply (rule m3)
      apply (simp add: out)
     apply (simp add: out)
    apply (simp add: out json_response_cases)
    done
qed

lemma get_main_merge_example:
  "validate_api_key both_stores (header_x_api_key get_request)
   \<and> route_param_id get_request = Some ''a1''
   \<and> Returned (CosmosRead ''a1'') \<in> set (new_events both_stores (snd (get_main get_request both_stores)))
   \<and> Returned (SqlFetch (SelectById [(''id'', PStr ''a1'')]))
        \<in> set (new_events both_stores (snd (get_main get_request both_stores)))
   \<and> (\<exists>merged. map_of merged ''fileName'' = Some (PStr ''sql.jpg'')
         \<and> map_of merged ''note'' = Some (PStr ''kept'')
         \<and> fst (get_main get_request both_stores) = json_response (PDict merged) 200)"
proof -
  let ?w' = "snd (get_main get_request both_stores)"
  have auth: "validate_api_key both_stores (header_x_api_key get_request)"
    by (simp add: get_request_def both_stores_def model_defs)
  have rid: "route_param_id get_request = Some ''a1''"
    by (simp add: get_request_def demo_request_def)
  have tr: "new_events both_stores ?w' =
      [Returned (CosmosRead ''a1''), Returned (SqlFetch (SelectById [(''id'', PStr ''a1'')]))]"
    by (simp add: new_events_def get_main_def get_lookup_def get_request_def both_stores_def
        model_defs Let_def)
  have run: "get_main get_request both_stores = (fst (get_main get_request both_stores), ?w')"
    by simp
  have e1: "Returned (CosmosRead ''a1'') \<in> set (new_events both_stores ?w')"
    and e2: "Returned (SqlFetch (SelectById [(''id'', PStr ''a1'')])) \<in> set (new_events both_stores ?w')"
    by (simp_all add: tr)
  from get_main_merge [OF auth rid _ run e1 e2]
  obtain merged where m:
    "map_of merged = map_of (case cosmos_items both_stores ''a1'' of None \<Rightarrow> [] | Some d \<Rightarrow> d)
        ++ (case filter (\<lambda>r. row_id r = ''a1'') (sql_rows both_stores) of [] \<Rightarrow> Map.empty
            | r # rest \<Rightarrow> map_of (select_columns (ts_repr both_stores) r))"
    "merged = [] \<longleftrightarrow> (case cosmos_items both_stores ''a1'' of None \<Rightarrow> [] | Some d \<Rightarrow> d) = []
        \<and> filter (\<lambda>r. row_id r = ''a1'') (sql_rows both_stores) = []"
    "merged \<noteq> [] \<longrightarrow> fst (get_main get_request both_stores) = json_response (PDict merged) 200"
    by (auto simp: Let_def)
  have "merged \<noteq> []" using m(2) by (simp add: both_stores_def demo_world_def)
  moreover have "map_of merged ''fileName'' = Some (PStr ''sql.jpg'')"
    "map_of merged ''note'' = Some (PStr ''kept'')"
    by (simp_all add: m(1) both_stores_def demo_world_def select_columns_def map_add_def)
  ultimately show ?thesis using m(3) auth rid e1 e2 by blast
qed

text \<open>
  When the driver hands back \<open>created_at\<close> as an object that \<open>json.dumps\<close> cannot
  encode, the handler raises on every id that has a relational row: \<open>json.dumps\<close> is
  called outside the \<open>try\<close> block.
\<close>

lemma get_main_unencodable:
  assumes "validate_api_key w (header_x_api_key req)"
    and "route_param_id req = Some aid" "aid \<noteq> []"
    and "fst (get_asset_doc aid w) = Inr d"
    and "fst (fetch_all_records (SelectById [(''id'', PStr aid)]) (snd (get_asset_doc aid w))) = Inr rows"
    and "r \<in> set (sql_rows w)" "row_id r = aid"
    and "\<And>t. \<not> serializable (ts_repr w t)"
  shows "fst (get_main req w) = Raised TypeError"
proof -
  let ?rows = "filter (\<lambda>r. row_id r = aid) (sql_rows w)"
  have rv: "rows = map (select_columns (ts_repr w)) ?rows"
    using fetch_all_records_value [OF assms(5)] by auto
  from assms(6,7) obtain r0 rest where rr: "?rows = r0 # rest"
    by (cases ?rows) (auto simp: filter_empty_conv)
  let ?m = "merge_stores d rows"
  have "map_of ?m = map_of (case d of None \<Rightarrow> [] | Some d \<Rightarrow> d)
       ++ (case ?rows of [] \<Rightarrow> Map.empty | r # rest \<Rightarrow> map_of (select_columns (ts_repr w) r))"
    unfolding rv by (rule merge_stores_map)
  then have "map_of ?m ''uploadDate'' = Some (ts_repr w (created_at r0))"
    by (simp add: rr select_columns_def map_add_def)
  then have "(''uploadDate'', ts_repr w (created_at r0)) \<in> set ?m" by (rule map_of_SomeD)
  then have ns: "\<not> serializable (PDict ?m)" using assms(8) by force
  then have ne: "?m \<noteq> []" by auto
  have "get_main req w = get_lookup aid w" by (rule get_main_lookup [OF assms(1-3)])
  then have "fst (get_main req w) =
      (if ?m = [] then Response (text_response ''Not Found'' 404)
       else json_response (PDict ?m) 200)"
    using get_lookup_effect(2) [OF prod.collapse [symmetric] assms(4,5)] by simp
  with ns ne show ?thesis by (simp add: json_response_cases)
qed

text \<open>
  C2. The handler is to answer a get request on an id that a store holds with the
  document overlaid with the relational row (its docstring: \<open>Asset object or 404 if not
  found\<close>). On the deployment whose \<open>created_at\<close> column is a date-time, both reads
  return and the merge is the document overlaid with the row, with the \<open>datetime\<close>
  object of the row as \<open>uploadDate\<close>; \<open>json.dumps\<close>, called outside the \<open>try\<close>
  block, raises \<open>TypeError\<close> on it and the handler raises instead of answering with the
  merge.
\<close>

theorem get_datetime_row_raises:
  "validate_api_key (datetime_column both_stores) (header_x_api_key get_request)
   \<and> new_events (datetime_column both_stores) (snd (get_main get_request (datetime_column both_stores)))
       = [Returned (CosmosRead ''a1''), Returned (SqlFetch (SelectById [(''id'', PStr ''a1'')]))]
   \<and> merge_stores (cosmos_items (datetime_column both_stores) ''a1'')
        (map (select_columns (ts_repr (datetime_column both_stores)))
           (sql_rows (datetime_column both_stores))) =
       [(''id'', PStr ''a1''), (''fileName'', PStr ''sql.jpg''), (''note'', PStr ''kept''),
        (''fileType'', PStr ''image/jpeg''), (''fileSize'', PInt 12),
        (''blobUrl'', PStr ''https://acct.blob.core.windows.net/assets/a1/sql.jpg''),
        (''status'', PStr ''pending''), (''uploadDate'', PObject ''datetime'')]
   \<and> fst (get_main get_request (datetime_column both_stores)) = Raised TypeError"
  by (simp add: new_events_def get_main_def get_lookup_def get_request_def both_stores_def
      datetime_column_def merge_stores_def dict_update_def select_columns_def model_defs Let_def)

text \<open>
  C3. On an id that both stores hold, with \<open>fileName\<close> \<open>cosmos.jpg\<close> in the document and
  \<open>sql.jpg\<close> in the relational row, the handler answers the relational value: the
  document store does not take precedence, although the comment on the merge says so.
\<close>

theorem get_overlap_returns_relational_value:
  "map_option (\<lambda>d. dict_get d ''fileName'') (cosmos_items both_stores ''a1'') = Some (PStr ''cosmos.jpg'')
   \<and> map file_name (sql_rows both_stores) = [PStr ''sql.jpg'']
   \<and> fst (get_main get_request both_stores) =
       Response \<lparr>body = Json (PDict
          [(''id'', PStr ''a1''), (''fileName'', PStr ''sql.jpg''), (''note'', PStr ''kept''),
           (''fileType'', PStr ''image/jpeg''), (''fileSize'', PInt 12),
           (''blobUrl'', PStr ''https://acct.blob.core.windows.net/assets/a1/sql.jpg''),
           (''status'', PStr ''pending''), (''uploadDate'', PInt 7)]),
         status_code = 200, mimetype = ''application/json''\<rparr>"
  by (simp add: get_main_def get_lookup_def get_request_def both_stores_def merge_stores_def
      dict_update_def select_columns_def model_defs Let_def)

subsection \<open>List\<close>

lemma order_by_created_at_desc_sorted:
  "sorted_wrt (\<lambda>a b. created_at b \<le> created_at a) (order_by_created_at_desc rs)"
proof -
  have "sorted (map (\<lambda>r. - created_at r) (order_by_created_at_desc rs))"
    by (simp add: order_by_created_at_desc_def)
  then show ?thesis by (simp add: sorted_wrt_map)
qed

lemma order_by_created_at_desc_mset [simp]:
  "mset (order_by_created_at_desc rs) = mset rs"
  by (simp add: order_by_created_at_desc_def)

lemma list_main_effect:
  assumes "validate_api_key w (header_x_api_key req)"
    and "list_main req w = (out, w')"
  shows "new_events w w' = [event_of (SqlFetch SelectAllByCreatedAtDesc)
                              (fst (fetch_all_records SelectAllByCreatedAtDesc w))]"
    and "cosmos_items w' = cosmos_items w"
    and "\<And>e. fst (fetch_all_records SelectAllByCreatedAtDesc w) = Inl e \<Longrightarrow>
           out = Response (text_response ''Internal server error'' 500)"
    and "\<And>rows. fst (fetch_all_records SelectAllByCreatedAtDesc w) = Inr rows \<Longrightarrow>
           out = json_response (PList (map PDict rows)) 200"
  using assms
  by (auto simp add: list_main_def require_api_key_def split_beta new_events_def
      split: sum.splits)

text \<open>
  For an authenticated list request, the only adapter call is the one relational
  query, and the document store is neither read nor changed. When the query returns, the
  handler hands \<open>json.dumps\<close> the array of all the rows of the table, as the SELECT
  shapes them, ordered by \<open>created_at\<close> descending, which gives the 200 response when it
  can encode every value of the rows; when the query raises, the answer is 500.
\<close>

lemma list_main_sorted:
  assumes "validate_api_key w (header_x_api_key req)"
    and "list_main req w = (out, w')"
  shows "(\<forall>ev \<in> set (new_events w w'). call_of ev = SqlFetch SelectAllByCreatedAtDesc)
       \<and> cosmos_items w' = cosmos_items w
       \<and> (Returned (SqlFetch SelectAllByCreatedAtDesc) \<in> set (new_events w w') \<longrightarrow>
            (\<exists>rs. mset rs = mset (sql_rows w)
                 \<and> sorted_wrt (\<lambda>a b. created_at b \<le> created_at a) rs
                 \<and> out = json_response (PList (map (\<lambda>r. PDict (select_columns (ts_repr w) r)) rs)) 200
                 \<and> (serializable (PList (map (\<lambda>r. PDict (select_columns (ts_repr w) r)) rs)) \<longrightarrow>
                      out = Response \<lparr>body = Json (PList (map (\<lambda>r. PDict (select_columns (ts_repr w) r)) rs)),
                                      status_code = 200, mimetype = ''application/json''\<rparr>)))
       \<and> (Returned (SqlFetch SelectAllByCreatedAtDesc) \<notin> set (new_events w w') \<longrightarrow>
            out = Response (text_response ''Internal server error'' 500))"
proof -
  let ?q = "SelectAllByCreatedAtDesc"
  let ?r = "fst (fetch_all_records ?q w)"
  note eff = list_main_effect [OF assms]
  have calls: "\<forall>ev \<in> set (new_events w w'). call_of ev = SqlFetch ?q"
    by (cases ?r) (simp_all add: eff(1) event_of_def)
  have ok: "\<exists>rs. mset rs = mset (sql_rows w)
                 \<and> sorted_wrt (\<lambda>a b. created_at b \<le> created_at a) rs
                 \<and> out = json_response (PList (map (\<lambda>r. PDict (select_columns (ts_repr w) r)) rs)) 200
                 \<and> (serializable (PList (map (\<lambda>r. PDict (select_columns (ts_repr w) r)) rs)) \<longrightarrow>
                      out = Response \<lparr>body = Json (PList (map (\<lambda>r. PDict (select_columns (ts_repr w) r)) rs)),
                                      status_code = 200, mimetype = ''application/json''\<rparr>)"
    if "Returned (SqlFetch ?q) \<in> set (new_events w w')"
  proof -
    from that obtain rows where rows: "?r = Inr rows"
      by (cases ?r) (auto simp: eff(1) event_of_def)
    from fetch_all_records_value [OF rows]
    have rv: "rows = map (select_columns (ts_repr w)) (order_by_created_at_desc (sql_rows w))"
      by simp
    have o: "out = json_response (PList (map (\<lambda>r. PDict (select_columns (ts_repr w) r))
                     (order_by_created_at_desc (sql_rows w)))) 200"
      using eff(4) [OF rows] by (simp add: rv comp_def)
    show ?thesis
      apply (rule exI [of _ "order_by_created_at_desc (sql_rows w)"])
      apply (intro conjI)
         apply simp
        apply (rule order_by_created_at_desc_sorted)
       apply (rule o)
      apply (simp add: o json_response_cases)
      done
  qed
  have failed: "out = Response (text_response ''Internal server error'' 500)"
    if "Returned (SqlFetch ?q) \<notin> set (new_events w w')"
  proof -
    from that obtain e where "?r = Inl e"
      by (cases ?r) (auto simp: eff(1) event_of_def)
    then show ?thesis by (rule eff(3))
  qed
  from calls eff(2) ok failed show ?thesis by blast
qed

lemma list_main_sorted_example:
  "validate_api_key three_rows (header_x_api_key list_request)
   \<and> map created_at (sql_rows three_rows) = [10, 30, 20]
   \<and> new_events three_rows (snd (list_main list_request three_rows)) =
       [Returned (SqlFetch SelectAllByCreatedAtDesc)]
   \<and> (\<exists>rs. mset rs = mset (sql_rows three_rows)
          \<and> sorted_wrt (\<lambda>a b. created_at b \<le> created_at a) rs
          \<and> fst (list_main list_request three_rows) =
              json_response (PList (map (\<lambda>r. PDict (select_columns (ts_repr three_rows) r)) rs)) 200)"
proof -
  let ?w' = "snd (list_main list_request three_rows)"
  have auth: "validate_api_key three_rows (header_x_api_key list_request)"
    by (simp add: list_request_def three_rows_def model_defs)
  have tr: "new_events three_rows ?w' = [Returned (SqlFetch SelectAllByCreatedAtDesc)]"
    by (simp add: new_events_def list_main_def list_request_def three_rows_def model_defs)
  have run: "list_main list_request three_rows = (fst (list_main list_request three_rows), ?w')"
    by simp
  have "Returned (SqlFetch SelectAllByCreatedAtDesc) \<in> set (new_events three_rows ?w')"
    by (simp add: tr)
  with list_main_sorted [OF auth run]
  have "\<exists>rs. mset rs = mset (sql_rows three_rows)
          \<and> sorted_wrt (\<lambda>a b. created_at b \<le> created_at a) rs
          \<and> fst (list_main list_request three_rows) =
              json_response (PList (map (\<lambda>r. PDict (select_columns (ts_repr three_rows) r)) rs)) 200"
    by blast
  moreover have "map created_at (sql_rows three_rows) = [10, 30, 20]"
    by (simp add: three_rows_def demo_world_def)
  ultimately show ?thesis using auth tr by blast
qed

text \<open>On the table with rows created at 10, 30 and 20, the answer lists them as 30, 20, 10.\<close>

lemma list_three_rows_order:
  "fst (list_main list_request three_rows) =
     json_response (PList (map (\<lambda>r. PDict (select_columns PInt r))
       [sql_rows three_rows ! 1, sql_rows three_rows ! 2, sql_rows three_rows ! 0])) 200"
  by (simp add: list_main_def list_request_def three_rows_def model_defs
      order_by_created_at_desc_def select_columns_def)

text \<open>
  When the driver hands back \<open>created_at\<close> as an object that \<open>json.dumps\<close> cannot
  encode, the handler raises whenever the table has a row.
\<close>

lemma serializable_select_columns:
  "serializable (PDict (select_columns repr r)) \<Longrightarrow> serializable (repr (created_at r))"
  by (simp add: select_columns_def)

lemma list_main_unencodable:
  assumes "validate_api_key w (header_x_api_key req)"
    and "fst (fetch_all_records SelectAllByCreatedAtDesc w) = Inr rows"
    and "sql_rows w \<noteq> []"
    and "\<And>t. \<not> serializable (ts_repr w t)"
  shows "fst (list_main req w) = Raised TypeError"
proof -
  let ?rs = "order_by_created_at_desc (sql_rows w)"
  have rv: "rows = map (select_columns (ts_repr w)) ?rs"
    using fetch_all_records_value [OF assms(2)] by simp
  have "mset ?rs \<noteq> {#}" using assms(3) by simp
  then obtain r where r: "r \<in> set ?rs" by (cases ?rs) auto
  have "\<not> serializable (PDict (select_columns (ts_repr w) r))"
    using serializable_select_columns assms(4) by blast
  with r have "\<not> serializable (PList (map PDict rows))"
    by (auto simp add: rv)
  moreover have "fst (list_main req w) = json_response (PList (map PDict rows)) 200"
    by (rule list_main_effect(4) [OF assms(1) prod.collapse [symmetric] assms(2)])
  ultimately show ?thesis by (simp add: json_response_cases)
qed

text \<open>
  C9. The handler is to answer an authenticated list request with the array of all rows,
  most recent first (its docstring: \<open>Array of asset objects\<close>). On the deployment whose
  \<open>created_at\<close> column is a date-time, with three rows in the table, the query returns
  and \<open>json.dumps\<close>, called outside the \<open>try\<close> block, raises \<open>TypeError\<close> on the
  \<open>datetime\<close> objects of the rows: the handler raises instead of answering with the
  array.
\<close>

theorem list_datetime_rows_raises:
  "validate_api_key (datetime_column three_rows) (header_x_api_key list_request)
   \<and> new_events (datetime_column three_rows) (snd (list_main list_request (datetime_column three_rows)))
       = [Returned (SqlFetch SelectAllByCreatedAtDesc)]
   \<and> fst (list_main list_request (datetime_column three_rows)) = Raised TypeError"
  by (simp add: new_events_def list_main_def list_request_def three_rows_def datetime_column_def
      model_defs order_by_created_at_desc_def select_columns_def)

subsection \<open>Delete\<close>

lemma list_blobs_trace [simp]:
  "trace (snd (list_blobs p w)) = trace w @ [event_of (BlobList p) (fst (list_blobs p w))]"
  by (simp add: list_blobs_def)

lemma delete_blob_trace [simp]:
  "trace (snd (delete_blob b w)) = trace w @ [event_of (BlobDelete b) (fst (delete_blob b w))]"
  by (simp add: delete_blob_def)

lemma blob_calls_sql [simp]:
  "db_engine (snd (list_blobs p w)) = db_engine w"
  "environ (snd (list_blobs p w)) = environ w"
  "create_engine_fault (snd (list_blobs p w)) = create_engine_fault w"
  "sql_fault (snd (list_blobs p w)) = sql_fault w"
  "sql_rows (snd (list_blobs p w)) = sql_rows w"
  "db_engine (snd (delete_blob b w)) = db_engine w"
  "environ (snd (delete_blob b w)) = environ w"
  "create_engine_fault (snd (delete_blob b w)) = create_engine_fault w"
  "sql_fault (snd (delete_blob b w)) = sql_fault w"
  "sql_rows (snd (delete_blob b w)) = sql_rows w"
  by (simp_all add: list_blobs_def delete_blob_def emit_def)

lemma logging_sql [simp]:
  "db_engine (logging l m w) = db_engine w"
  "environ (logging l m w) = environ w"
  "create_engine_fault (logging l m w) = create_engine_fault w"
  "sql_fault (logging l m w) = sql_fault w"
  by (simp_all add: logging_def)

lemma blob_call_event_of [simp]:
  "blob_call (event_of (BlobList p) r)" "blob_call (event_of (BlobDelete b) r')"
  by (simp_all add: blob_call_def event_of_def split: sum.splits)

lemma delete_each_effect:
  "(\<exists>evs. trace (delete_each bs w) = trace w @ evs \<and> (\<forall>ev \<in> set evs. blob_call ev))
   \<and> db_engine (delete_each bs w) = db_engine w
   \<and> environ (delete_each bs w) = environ w
   \<and> create_engine_fault (delete_each bs w) = create_engine_fault w
   \<and> sql_fault (delete_each bs w) = sql_fault w
   \<and> sql_rows (delete_each bs w) = sql_rows w"
proof (induction bs arbitrary: w)
  case Nil
  then show ?case by simp
next
  case (Cons b bs)
  let ?w1 = "(case delete_blob b w of
          (Inl e, w1) \<Rightarrow> logging WARNING ''Failed to delete blob'' w1
        | (Inr u, w1) \<Rightarrow> logging INFO ''Deleted blob'' w1)"
  have w1: "trace ?w1 = trace w @ [event_of (BlobDelete b) (fst (delete_blob b w))]"
    "db_engine ?w1 = db_engine w" "environ ?w1 = environ w"
    "create_engine_fault ?w1 = create_engine_fault w" "sql_fault ?w1 = sql_fault w"
    "sql_rows ?w1 = sql_rows w"
    by (simp_all add: split_beta split: sum.splits)
  from Cons.IH [of ?w1] obtain evs where evs:
    "trace (delete_each bs ?w1) = trace ?w1 @ evs" "\<forall>ev \<in> set evs. blob_call ev"
    by blast
  have "trace (delete_each (b # bs) w) =
          trace w @ (event_of (BlobDelete b) (fst (delete_blob b w)) # evs)"
    using evs(1) w1(1) by simp
  moreover have "\<forall>ev \<in> set (event_of (BlobDelete b) (fst (delete_blob b w)) # evs). blob_call ev"
    using evs(2) by simp
  ultimately have "\<exists>evs. trace (delete_each (b # bs) w) = trace w @ evs
                       \<and> (\<forall>ev \<in> set evs. blob_call ev)"
    by blast
  then show ?case using Cons.IH [of ?w1] w1 by simp
qed

lemma delete_blobs_effect:
  "(\<exists>evs. trace (delete_blobs aid w) = trace w @ evs \<and> (\<forall>ev \<in> set evs. blob_call ev))
   \<and> db_engine (delete_blobs aid w) = db_engine w
   \<and> environ (delete_blobs aid w) = environ w
   \<and> create_engine_fault (delete_blobs aid w) = create_engine_fault w
   \<and> sql_fault (delete_blobs aid w) = sql_fault w
   \<and> sql_rows (delete_blobs aid w) = sql_rows w"
proof (cases "create_blob_client w")
  case (Inl e)
  then show ?thesis by (simp add: delete_blobs_def)
next
  case (Inr u)
  let ?w1 = "snd (list_blobs (aid @ ''/'') w)"
  show ?thesis
  proof (cases "fst (list_blobs (aid @ ''/'') w)")
    case (Inl e)
    then have "delete_blobs aid w = logging ERROR ''Failed to delete blobs from storage'' ?w1"
      using Inr by (simp add: delete_blobs_def split_beta)
    then show ?thesis by simp
  next
    case bl: (Inr bs)
    then have d: "delete_blobs aid w = delete_each bs ?w1"
      using Inr by (simp add: delete_blobs_def split_beta)
    from delete_each_effect [of bs ?w1] obtain evs where evs:
      "trace (delete_each bs ?w1) = trace ?w1 @ evs" "\<forall>ev \<in> set evs. blob_call ev"
      by blast
    have "trace (delete_blobs aid w) =
            trace w @ (event_of (BlobList (aid @ ''/'')) (fst (list_blobs (aid @ ''/'') w)) # evs)"
      using evs(1) by (simp add: d)
    moreover have "\<forall>ev \<in> set (event_of (BlobList (aid @ ''/'')) (fst (list_blobs (aid @ ''/'') w)) # evs).
                     blob_call ev"
      using evs(2) by simp
    ultimately have "\<exists>evs. trace (delete_blobs aid w) = trace w @ evs
                       \<and> (\<forall>ev \<in> set evs. blob_call ev)"
      by blast
    then show ?thesis using delete_each_effect [of bs ?w1] by (simp add: d)
  qed
qed

lemma delete_asset_doc_trace [simp]:
  "trace (snd (delete_asset_doc aid w)) =
     trace w @ [event_of (CosmosDelete aid) (fst (delete_asset_doc aid w))]"
  by (simp add: delete_asset_doc_def delete_item_def split_beta split: sum.splits option.splits)

lemma delete_cosmos_trace [simp]:
  "trace (delete_cosmos aid w) =
     trace w @ [event_of (CosmosDelete aid) (fst (delete_asset_doc aid w))]"
  by (simp add: delete_cosmos_def split_beta split: sum.splits)

lemma execute_update_delete_ok:
  "fst (execute_update (DeleteById [(''id'', PStr aid)]) w) = Inr () \<longleftrightarrow>
     sql_available w \<and> \<not> sql_fault w (DeleteById [(''id'', PStr aid)])"
  by (auto simp add: execute_update_def get_database_engine_def sql_available_def split_beta
      split: sum.splits if_splits)

lemma sql_available_cong:
  "db_engine w' = db_engine w \<Longrightarrow> environ w' = environ w \<Longrightarrow>
   create_engine_fault w' = create_engine_fault w \<Longrightarrow> sql_available w' = sql_available w"
  by (simp add: sql_available_def construct_connection_string_def getenv_def)

lemma blob_call_not_sql:
  assumes "\<forall>ev \<in> set evs. blob_call ev"
  shows "Returned (SqlExecute q) \<notin> set evs" "Threw (SqlExecute q) e \<notin> set evs"
    "CosmosDelete aid \<notin> call_of ` set evs"
proof -
  have "\<And>ev. ev \<in> set evs \<Longrightarrow> call_of ev \<noteq> SqlExecute q \<and> call_of ev \<noteq> CosmosDelete aid"
  proof -
    fix ev assume "ev \<in> set evs"
    with assms have "blob_call ev" by blast
    then show "call_of ev \<noteq> SqlExecute q \<and> call_of ev \<noteq> CosmosDelete aid"
      by (auto simp: blob_call_def)
  qed
  then have c: "\<And>ev. ev \<in> set evs \<Longrightarrow> call_of ev \<noteq> SqlExecute q"
    "\<And>ev. ev \<in> set evs \<Longrightarrow> call_of ev \<noteq> CosmosDelete aid"
    by blast+
  from c(1) [of "Returned (SqlExecute q)"] show "Returned (SqlExecute q) \<notin> set evs" by auto
  from c(1) [of "Threw (SqlExecute q) e"] show "Threw (SqlExecute q) e \<notin> set evs" by auto
  from c(2) show "CosmosDelete aid \<notin> call_of ` set evs" by force
qed

lemma delete_main_records:
  assumes "validate_api_key w (header_x_api_key req)"
    and "route_param_id req = Some aid" "aid \<noteq> []"
  shows "delete_main req w = delete_records aid w"
  using assms by (simp add: delete_main_def require_api_key_def)

lemma json_response_deleted [simp]:
  "json_response (PDict [(''deleted'', PBool True), (''id'', PStr aid)]) code =
     Response \<lparr>body = Json (PDict [(''deleted'', PBool True), (''id'', PStr aid)]),
               status_code = code, mimetype = ''application/json''\<rparr>"
  by (simp add: json_response_cases)

text \<open>
  C4. For an authenticated delete request with an id, the handler answers 200 with
  \<open>{deleted: true, id}\<close> exactly when the relational DELETE returned, and that depends on
  the relational service alone: not on the blobs found, on a blob delete that failed, on the
  document-store delete, nor on whether any record of the id exists. When the DELETE did not
  return it raised, the answer is 500, and the document-store delete is not attempted.
\<close>

theorem delete_200_iff_relational_delete:
  assumes "validate_api_key w (header_x_api_key req)"
    and "route_param_id req = Some aid" "aid \<noteq> []"
    and "delete_main req w = (out, w')"
  shows "(out = Response \<lparr>body = Json (PDict [(''deleted'', PBool True), (''id'', PStr aid)]),
                          status_code = 200, mimetype = ''application/json''\<rparr>
            \<longleftrightarrow> Returned (SqlExecute (DeleteById [(''id'', PStr aid)])) \<in> set (new_events w w'))
       \<and> (Returned (SqlExecute (DeleteById [(''id'', PStr aid)])) \<notin> set (new_events w w') \<longrightarrow>
            out = Response (text_response ''Failed to delete asset from database'' 500)
            \<and> (\<exists>e. Threw (SqlExecute (DeleteById [(''id'', PStr aid)])) e \<in> set (new_events w w'))
            \<and> CosmosDelete aid \<notin> call_of ` set (new_events w w'))
       \<and> (Returned (SqlExecute (DeleteById [(''id'', PStr aid)])) \<in> set (new_events w w')
            \<longleftrightarrow> sql_available w \<and> \<not> sql_fault w (DeleteById [(''id'', PStr aid)]))"
proof -
  let ?q = "DeleteById [(''id'', PStr aid)]"
  let ?wB = "delete_blobs aid w"
  let ?rS = "fst (execute_update ?q ?wB)"
  let ?wS = "snd (execute_update ?q ?wB)"
  have run: "delete_records aid w = (out, w')"
    using delete_main_records [OF assms(1-3)] assms(4) by simp
  from delete_blobs_effect [of aid w] obtain evs where evs:
    "trace ?wB = trace w @ evs" "\<forall>ev \<in> set evs. blob_call ev"
    and fr: "db_engine ?wB = db_engine w" "environ ?wB = environ w"
      "create_engine_fault ?wB = create_engine_fault w" "sql_fault ?wB = sql_fault w"
    by blast
  note nb = blob_call_not_sql [OF evs(2)]
  have avail: "?rS = Inr () \<longleftrightarrow> sql_available w \<and> \<not> sql_fault w ?q"
    using sql_available_cong [OF fr(1-3)] by (simp add: execute_update_delete_ok fr(4))
  show ?thesis
  proof (cases ?rS)
    case (Inl e)
    have o: "out = Response (text_response ''Failed to delete asset from database'' 500)"
      and w': "w' = logging ERROR ''Failed to delete from SQL Database'' ?wS"
      using run Inl by (simp_all add: delete_records_def split_beta)
    have ne: "new_events w w' = evs @ [Threw (SqlExecute ?q) e]"
      by (simp add: new_events_def w' evs(1) Inl event_of_def)
    have no: "Returned (SqlExecute ?q) \<notin> set (new_events w w')"
      using nb(1) by (simp add: ne)
    have nc: "CosmosDelete aid \<notin> call_of ` set (new_events w w')"
      using nb(3) by (simp add: ne)
    have th: "\<exists>e. Threw (SqlExecute ?q) e \<in> set (new_events w w')"
      by (auto simp: ne)
    have na: "\<not> (sql_available w \<and> \<not> sql_fault w ?q)"
      using avail Inl by simp
    have ns: "out \<noteq> Response \<lparr>body = Json (PDict [(''deleted'', PBool True), (''id'', PStr aid)]),
                          status_code = 200, mimetype = ''application/json''\<rparr>"
      by (simp add: o text_response_def)
    from no nc th na ns o show ?thesis by blast
  next
    case (Inr u)
    have o: "out = Response \<lparr>body = Json (PDict [(''deleted'', PBool True), (''id'', PStr aid)]),
                          status_code = 200, mimetype = ''application/json''\<rparr>"
      and w': "w' = logging INFO ''Successfully deleted asset''
             (delete_cosmos aid (logging INFO ''Deleted asset from SQL Database'' ?wS))"
      using run Inr by (simp_all add: delete_records_def split_beta)
    have "Returned (SqlExecute ?q) \<in> set (new_events w w')"
      by (simp add: new_events_def w' evs(1) Inr event_of_def)
    moreover have "sql_available w \<and> \<not> sql_fault w ?q"
      using avail Inr by simp
    ultimately show ?thesis using o by blast
  qed
qed

theorem delete_200_iff_relational_delete_witness:
  "validate_api_key demo_world (header_x_api_key delete_request)
   \<and> route_param_id delete_request = Some ''zz''
   \<and> sql_rows demo_world = [] \<and> blob_names demo_world = [] \<and> cosmos_items demo_world ''zz'' = None
   \<and> Returned (SqlExecute (DeleteById [(''id'', PStr ''zz'')]))
        \<in> set (new_events demo_world (snd (delete_main delete_request demo_world)))
   \<and> fst (delete_main delete_request demo_world) =
       Response \<lparr>body = Json (PDict [(''deleted'', PBool True), (''id'', PStr ''zz'')]),
                 status_code = 200, mimetype = ''application/json''\<rparr>"
proof -
  let ?w' = "snd (delete_main delete_request demo_world)"
  have auth: "validate_api_key demo_world (header_x_api_key delete_request)"
    by (simp add: delete_request_def model_defs)
  have rid: "route_param_id delete_request = Some ''zz''"
    by (simp add: delete_request_def demo_request_def)
  have run: "delete_main delete_request demo_world = (fst (delete_main delete_request demo_world), ?w')"
    by simp
  have up: "sql_available demo_world \<and> \<not> sql_fault demo_world (DeleteById [(''id'', PStr ''zz'')])"
    by (simp add: sql_available_def model_defs)
  have empty: "sql_rows demo_world = []" "blob_names demo_world = []"
    "cosmos_items demo_world ''zz'' = None"
    by (simp_all add: demo_world_def)
  from delete_200_iff_relational_delete [OF auth rid _ run] up empty auth rid
  show ?thesis by simp
qed

subsection \<open>Update: the UPDATE statement and the table\<close>

lemma keys_dict_set [simp]: "fst ` set (dict_set k v d) = insert k (fst ` set d)"
  by (induction d) auto

lemma keys_fold_dict_set:
  "fst ` set (fold (\<lambda>(k, v). dict_set k v) e d) = fst ` set d \<union> fst ` set e"
  by (induction e arbitrary: d) (auto simp: split_beta)

lemma keys_fields_to_update:
  "fst ` set (fields_to_update d) = fst ` set d \<inter> set allowed_fields"
  by (auto simp: fields_to_update_def dict_update_def keys_fold_dict_set image_iff)

lemma column_of_allowed:
  "column_of ''fileName'' = ''file_name''" "column_of ''fileType'' = ''file_type''"
  "column_of ''fileSize'' = ''file_size''" "column_of ''blobUrl'' = ''blob_url''"
  "column_of ''status'' = ''status''"
  by (simp_all add: column_of_def field_mapping_def)

lemma sql_assignment_step:
  "sql_assignment (f, v) (cs, p) = (cs', p') \<Longrightarrow>
     set cs' = set cs \<union> column_of ` ({f} \<inter> set allowed_fields)
     \<and> (map_of p' ''id'' = map_of p ''id'')"
  by (auto simp: sql_assignment_def field_mapping_def allowed_fields_def column_of_def
      split: if_splits)

lemma fold_sql_assignment:
  "fold sql_assignment fs (cs, p) = (cs', p') \<Longrightarrow>
     set cs' = set cs \<union> column_of ` (fst ` set fs \<inter> set allowed_fields)
     \<and> (map_of p' ''id'' = map_of p ''id'')"
proof (induction fs arbitrary: cs p)
  case Nil
  then show ?case by simp
next
  case (Cons a fs)
  obtain f v where a: "a = (f, v)" by (cases a)
  obtain cs1 p1 where s: "sql_assignment (f, v) (cs, p) = (cs1, p1)"
    by (cases "sql_assignment (f, v) (cs, p)")
  from Cons.prems have "fold sql_assignment fs (cs1, p1) = (cs', p')" by (simp add: a s)
  from Cons.IH [OF this] sql_assignment_step [OF s] show ?case
    by (auto simp: a)
qed

lemma build_update_columns:
  assumes "build_update aid fs = (cs, p)"
  shows "set cs = column_of ` (fst ` set fs \<inter> set allowed_fields)"
    and "map_of p ''id'' = Some (PStr aid)"
  using fold_sql_assignment [of fs "[]" "[(''id'', PStr aid)]" cs p] assms
  by (simp_all add: build_update_def)

lemma set_col_frame:
  "set_col c v r = Some r' \<Longrightarrow>
     (c \<noteq> ''id'' \<longrightarrow> row_id r' = row_id r) \<and> (c \<noteq> ''user_id'' \<longrightarrow> user_id r' = user_id r)
   \<and> (c \<noteq> ''file_name'' \<longrightarrow> file_name r' = file_name r)
   \<and> (c \<noteq> ''file_type'' \<longrightarrow> file_type r' = file_type r)
   \<and> (c \<noteq> ''file_size'' \<longrightarrow> file_size r' = file_size r)
   \<and> (c \<noteq> ''blob_url'' \<longrightarrow> blob_url r' = blob_url r)
   \<and> (c \<noteq> ''status'' \<longrightarrow> status r' = status r)
   \<and> (c \<noteq> ''created_at'' \<longrightarrow> created_at r' = created_at r)"
  by (auto simp: set_col_def split: if_splits pyval.splits)

lemma kept_refl [simp]: "kept cs r r"
  by (simp add: kept_def)

lemma set_cols_frame: "set_cols cs p r = Some r' \<Longrightarrow> kept cs r r'"
proof (induction cs arbitrary: r)
  case Nil
  then show ?case by simp
next
  case (Cons c cs)
  from Cons.prems obtain v r1 where v: "map_of p c = Some v" and r1: "set_col c v r = Some r1"
    and rest: "set_cols cs p r1 = Some r'"
    by (auto split: option.splits)
  from Cons.IH [OF rest] set_col_frame [OF r1] show ?case
    by (auto simp: kept_def)
qed

lemma update_rows_frame:
  "update_rows cs p i rs = Some rs' \<Longrightarrow>
     list_all2 (\<lambda>r r'. kept cs r r' \<and> (PStr (row_id r) \<noteq> i \<longrightarrow> r' = r)) rs rs'"
proof (induction rs arbitrary: rs')
  case Nil
  then show ?case by simp
next
  case (Cons r rs)
  from Cons.prems obtain r1 rs1 where
    r1: "(if PStr (row_id r) = i then set_cols cs p r else Some r) = Some r1"
    and rs1: "update_rows cs p i rs = Some rs1" and eq: "rs' = r1 # rs1"
    by (auto split: option.splits)
  have "kept cs r r1 \<and> (PStr (row_id r) \<noteq> i \<longrightarrow> r1 = r)"
    using r1 set_cols_frame [of cs p r r1] by (auto split: if_splits)
  with Cons.IH [OF rs1] show ?case by (simp add: eq)
qed

lemma execute_update_rows:
  "sql_rows (snd (execute_update (UpdateSet cs p) w)) = sql_rows w
   \<or> (\<exists>i. map_of p ''id'' = Some i
          \<and> update_rows cs p i (sql_rows w) = Some (sql_rows (snd (execute_update (UpdateSet cs p) w))))"
  by (auto simp add: execute_update_def split_beta split: sum.splits option.splits if_splits)

lemma list_all2_same: "list_all2 P xs xs \<longleftrightarrow> (\<forall>x \<in> set xs. P x x)"
  by (induction xs) auto

lemma execute_update_frame:
  assumes "map_of p ''id'' = Some (PStr aid)"
  shows "list_all2 (\<lambda>r r'. kept cs r r' \<and> (row_id r \<noteq> aid \<longrightarrow> r' = r))
           (sql_rows w) (sql_rows (snd (execute_update (UpdateSet cs p) w)))"
  using execute_update_rows [of cs p w]
proof
  assume "sql_rows (snd (execute_update (UpdateSet cs p) w)) = sql_rows w"
  then show ?thesis by (simp add: list_all2_same)
next
  assume "\<exists>i. map_of p ''id'' = Some i
          \<and> update_rows cs p i (sql_rows w) = Some (sql_rows (snd (execute_update (UpdateSet cs p) w)))"
  with assms have "update_rows cs p (PStr aid) (sql_rows w)
      = Some (sql_rows (snd (execute_update (UpdateSet cs p) w)))" by auto
  from update_rows_frame [OF this] show ?thesis by simp
qed

lemma call_of_event_of [simp]: "call_of (event_of c r) = c"
  by (cases r) (simp_all add: event_of_def)

lemma executed_statements_append [simp]:
  "executed_statements (xs @ ys) = executed_statements xs @ executed_statements ys"
  by (induction xs) (auto split: call.splits)

lemma update_cosmos_effect:
  "sql_rows (update_cosmos aid f w) = sql_rows w
   \<and> (\<exists>evs. trace (update_cosmos aid f w) = trace w @ evs \<and> executed_statements evs = [])"
  by (simp add: update_cosmos_def split_beta Let_def split: sum.splits)

lemma fetch_updated_effect:
  "sql_rows (snd (fetch_updated aid f w)) = sql_rows w
   \<and> (\<exists>evs. trace (snd (fetch_updated aid f w)) = trace w @ evs \<and> executed_statements evs = [])"
  by (simp add: fetch_updated_def split_beta Let_def split: sum.splits)

lemma update_sql_effect:
  assumes "build_update aid f = (cs, p)"
  shows "list_all2 (\<lambda>r r'. kept cs r r' \<and> (row_id r \<noteq> aid \<longrightarrow> r' = r))
           (sql_rows w) (sql_rows (snd (update_sql aid f w)))"
    and "\<exists>evs. trace (snd (update_sql aid f w)) = trace w @ evs
           \<and> set (executed_statements evs) \<subseteq> {UpdateSet cs p}"
proof -
  note id = build_update_columns(2) [OF assms]
  show "list_all2 (\<lambda>r r'. kept cs r r' \<and> (row_id r \<noteq> aid \<longrightarrow> r' = r))
           (sql_rows w) (sql_rows (snd (update_sql aid f w)))"
    using execute_update_frame [OF id, of cs w]
    by (simp add: update_sql_def assms list_all2_same)
  show "\<exists>evs. trace (snd (update_sql aid f w)) = trace w @ evs
           \<and> set (executed_statements evs) \<subseteq> {UpdateSet cs p}"
    by (simp add: update_sql_def assms)
qed

lemma update_apply_effect:
  assumes "build_update aid f = (cs, p)"
    and "update_apply aid f w = (out, w')"
  shows "list_all2 (\<lambda>r r'. kept cs r r' \<and> (row_id r \<noteq> aid \<longrightarrow> r' = r)) (sql_rows w) (sql_rows w')"
    and "set (executed_statements (new_events w w')) \<subseteq> {UpdateSet cs p}"
proof -
  let ?wC = "update_cosmos aid f w"
  let ?rS = "fst (update_sql aid f ?wC)"
  let ?wS = "snd (update_sql aid f ?wC)"
  let ?wF = "snd (fetch_updated aid f ?wS)"
  from update_cosmos_effect [of aid f w] obtain evsC where
    c: "sql_rows ?wC = sql_rows w" "trace ?wC = trace w @ evsC" "executed_statements evsC = []"
    by blast
  from update_sql_effect [OF assms(1), of ?wC] obtain evsS where
    s: "list_all2 (\<lambda>r r'. kept cs r r' \<and> (row_id r \<noteq> aid \<longrightarrow> r' = r)) (sql_rows ?wC) (sql_rows ?wS)"
      "trace ?wS = trace ?wC @ evsS" "set (executed_statements evsS) \<subseteq> {UpdateSet cs p}"
    by blast
  from fetch_updated_effect [of aid f ?wS] obtain evsF where
    f: "sql_rows ?wF = sql_rows ?wS" "trace ?wF = trace ?wS @ evsF" "executed_statements evsF = []"
    by blast
  have w': "w' = logging ERROR ''Failed to update SQL Database'' ?wS
            \<or> w' = logging INFO ''Updated asset'' ?wF"
    using assms(2) by (auto simp: update_apply_def split_beta split: sum.splits)
  then have rows: "sql_rows w' = sql_rows ?wS"
    using f(1) by auto
  from w' have tr: "trace w' = trace w @ evsC @ evsS \<or> trace w' = trace w @ evsC @ evsS @ evsF"
    using c(2) s(2) f(2) by auto
  show "list_all2 (\<lambda>r r'. kept cs r r' \<and> (row_id r \<noteq> aid \<longrightarrow> r' = r)) (sql_rows w) (sql_rows w')"
    using s(1) by (simp add: rows c(1))
  from tr show "set (executed_statements (new_events w w')) \<subseteq> {UpdateSet cs p}"
  proof
    assume "trace w' = trace w @ evsC @ evsS"
    then show ?thesis using c(3) s(3) by (simp add: new_events_def)
  next
    assume "trace w' = trace w @ evsC @ evsS @ evsF"
    then show ?thesis using c(3) s(3) f(3) by (simp add: new_events_def)
  qed
qed

lemma update_main_cases:
  assumes "update_main req w = (out, w')"
  shows "w' = w \<or> (\<exists>l m. w' = logging l m w)
       \<or> (\<exists>aid d. route_param_id req = Some aid \<and> get_json req = Some (PDict d)
              \<and> update_apply aid (fields_to_update d) w = (out, w'))"
proof (cases "get_json req")
  case None
  with assms show ?thesis
    by (auto simp: update_main_def split: sum.splits option.splits if_splits)
next
  case (Some json)
  show ?thesis
  proof (cases json)
    case (PDict d)
    with assms Some show ?thesis
      by (auto simp: update_main_def update_body_dict split: sum.splits option.splits if_splits)
  qed (use assms Some in \<open>auto simp: update_main_def update_body_def Let_def fields_to_update_def dict_update_def
        split: sum.splits option.splits if_splits\<close>)
qed

lemma column_of_inj:
  assumes "k \<in> set allowed_fields"
  shows "column_of k \<noteq> ''id''" "column_of k \<noteq> ''created_at''" "column_of k \<noteq> ''user_id''"
    "column_of k = ''file_name'' \<longleftrightarrow> k = ''fileName''"
    "column_of k = ''file_type'' \<longleftrightarrow> k = ''fileType''"
    "column_of k = ''file_size'' \<longleftrightarrow> k = ''fileSize''"
    "column_of k = ''blob_url'' \<longleftrightarrow> k = ''blobUrl''"
    "column_of k = ''status'' \<longleftrightarrow> k = ''status''"
  using assms by (auto simp: allowed_fields_def column_of_allowed)

lemma kept_accepted:
  assumes "set cs = column_of ` (K \<inter> set allowed_fields)" and "kept cs r r'"
  shows "row_id r' = row_id r \<and> created_at r' = created_at r \<and> user_id r' = user_id r
       \<and> (file_name r' \<noteq> file_name r \<longrightarrow> ''fileName'' \<in> K)
       \<and> (file_type r' \<noteq> file_type r \<longrightarrow> ''fileType'' \<in> K)
       \<and> (file_size r' \<noteq> file_size r \<longrightarrow> ''fileSize'' \<in> K)
       \<and> (blob_url r' \<noteq> blob_url r \<longrightarrow> ''blobUrl'' \<in> K)
       \<and> (status r' \<noteq> status r \<longrightarrow> ''status'' \<in> K)"
proof -
  have mem: "\<exists>k. k \<in> K \<and> k \<in> set allowed_fields \<and> column_of k = c" if "c \<in> set cs" for c
    using that assms(1) by auto
  have no: "''id'' \<notin> set cs" "''created_at'' \<notin> set cs" "''user_id'' \<notin> set cs"
  proof -
    show "''id'' \<notin> set cs"
    proof
      assume "''id'' \<in> set cs"
      from mem [OF this] obtain k where "k \<in> set allowed_fields" "column_of k = ''id''" by blast
      with column_of_inj(1) [of k] show False by simp
    qed
    show "''created_at'' \<notin> set cs"
    proof
      assume "''created_at'' \<in> set cs"
      from mem [OF this] obtain k where "k \<in> set allowed_fields" "column_of k = ''created_at''"
        by blast
      with column_of_inj(2) [of k] show False by simp
    qed
    show "''user_id'' \<notin> set cs"
    proof
      assume "''user_id'' \<in> set cs"
      from mem [OF this] obtain k where "k \<in> set allowed_fields" "column_of k = ''user_id''"
        by blast
      with column_of_inj(3) [of k] show False by simp
    qed
  qed
  have yes: "''fileName'' \<in> K" if "''file_name'' \<in> set cs"
    using mem [OF that] column_of_inj(4) by blast
  have yes2: "''fileType'' \<in> K" if "''file_type'' \<in> set cs"
    using mem [OF that] column_of_inj(5) by blast
  have yes3: "''fileSize'' \<in> K" if "''file_size'' \<in> set cs"
    using mem [OF that] column_of_inj(6) by blast
  have yes4: "''blobUrl'' \<in> K" if "''blob_url'' \<in> set cs"
    using mem [OF that] column_of_inj(7) by blast
  have yes5: "''status'' \<in> K" if "''status'' \<in> set cs"
    using mem [OF that] column_of_inj(8) by blast
  from assms(2) no yes yes2 yes3 yes4 yes5 show ?thesis unfolding kept_def by blast
qed

text \<open>
  C6. Whatever the update request and its outcome: every relational statement the handler
  executes is an UPDATE whose SET list is exactly the columns of the allow-listed keys of
  the body, bound to the id of the route; and the table afterwards has the same rows in the
  same places, where \<open>id\<close>, \<open>created_at\<close> and \<open>user_id\<close> are as before, each other
  column differs only if its field is a key of the body, and a row differs only if its id
  is the id of the route. So a body with \<open>status\<close> alone can change the \<open>status\<close> column
  alone.
\<close>

theorem update_sets_only_accepted_columns:
  assumes "update_main req w = (out, w')"
  shows "(\<forall>q \<in> set (executed_statements (new_events w w')).
            \<exists>cs p. q = UpdateSet cs p
                  \<and> set cs = column_of ` (body_keys req \<inter> set allowed_fields)
                  \<and> map_of p ''id'' = map_option PStr (route_param_id req))
       \<and> list_all2
            (\<lambda>r r'. row_id r' = row_id r \<and> created_at r' = created_at r \<and> user_id r' = user_id r
               \<and> (file_name r' \<noteq> file_name r \<longrightarrow> ''fileName'' \<in> body_keys req)
               \<and> (file_type r' \<noteq> file_type r \<longrightarrow> ''fileType'' \<in> body_keys req)
               \<and> (file_size r' \<noteq> file_size r \<longrightarrow> ''fileSize'' \<in> body_keys req)
               \<and> (blob_url r' \<noteq> blob_url r \<longrightarrow> ''blobUrl'' \<in> body_keys req)
               \<and> (status r' \<noteq> status r \<longrightarrow> ''status'' \<in> body_keys req)
               \<and> (r' \<noteq> r \<longrightarrow> route_param_id req = Some (row_id r)))
            (sql_rows w) (sql_rows w')"
  using update_main_cases [OF assms]
proof (elim disjE exE conjE)
  assume "w' = w"
  then show ?thesis by (simp add: new_events_def list_all2_same)
next
  fix l m assume "w' = logging l m w"
  then show ?thesis by (simp add: new_events_def list_all2_same)
next
  fix aid d
  assume rid: "route_param_id req = Some aid" and body: "get_json req = Some (PDict d)"
    and run: "update_apply aid (fields_to_update d) w = (out, w')"
  obtain cs p where b: "build_update aid (fields_to_update d) = (cs, p)"
    by (cases "build_update aid (fields_to_update d)")
  have keys: "body_keys req = fst ` set d" by (simp add: body_keys_def body)
  have cs: "set cs = column_of ` (body_keys req \<inter> set allowed_fields)"
    using build_update_columns(1) [OF b] by (simp add: keys keys_fields_to_update Int_assoc)
  have idp: "map_of p ''id'' = map_option PStr (route_param_id req)"
    using build_update_columns(2) [OF b] by (simp add: rid)
  note eff = update_apply_effect [OF b run]
  have stmts: "\<forall>q \<in> set (executed_statements (new_events w w')).
            \<exists>cs p. q = UpdateSet cs p
                  \<and> set cs = column_of ` (body_keys req \<inter> set allowed_fields)
                  \<and> map_of p ''id'' = map_option PStr (route_param_id req)"
    using eff(2) cs idp by blast
  have rows: "list_all2
            (\<lambda>r r'. row_id r' = row_id r \<and> created_at r' = created_at r \<and> user_id r' = user_id r
               \<and> (file_name r' \<noteq> file_name r \<longrightarrow> ''fileName'' \<in> body_keys req)
               \<and> (file_type r' \<noteq> file_type r \<longrightarrow> ''fileType'' \<in> body_keys req)
               \<and> (file_size r' \<noteq> file_size r \<longrightarrow> ''fileSize'' \<in> body_keys req)
               \<and> (blob_url r' \<noteq> blob_url r \<longrightarrow> ''blobUrl'' \<in> body_keys req)
               \<and> (status r' \<noteq> status r \<longrightarrow> ''status'' \<in> body_keys req)
               \<and> (r' \<noteq> r \<longrightarrow> route_param_id req = Some (row_id r)))
            (sql_rows w) (sql_rows w')"
  proof (rule list_all2_mono [OF eff(1)])
    fix r r'
    assume k: "kept cs r r' \<and> (row_id r \<noteq> aid \<longrightarrow> r' = r)"
    from kept_accepted [OF cs, of r r'] k
    show "row_id r' = row_id r \<and> created_at r' = created_at r \<and> user_id r' = user_id r
               \<and> (file_name r' \<noteq> file_name r \<longrightarrow> ''fileName'' \<in> body_keys req)
               \<and> (file_type r' \<noteq> file_type r \<longrightarrow> ''fileType'' \<in> body_keys req)
               \<and> (file_size r' \<noteq> file_size r \<longrightarrow> ''fileSize'' \<in> body_keys req)
               \<and> (blob_url r' \<noteq> blob_url r \<longrightarrow> ''blobUrl'' \<in> body_keys req)
               \<and> (status r' \<noteq> status r \<longrightarrow> ''status'' \<in> body_keys req)
               \<and> (r' \<noteq> r \<longrightarrow> route_param_id req = Some (row_id r))"
      by (auto simp: rid)
  qed
  from stmts rows show ?thesis by blast
qed

theorem update_sets_only_accepted_columns_witness:
  "executed_statements (new_events both_stores (snd (update_main status_request both_stores))) =
     [UpdateSet [''status''] [(''id'', PStr ''a1''), (''status'', PStr ''done'')]]
   \<and> body_keys status_request = {''status'', ''createdAt''}
   \<and> map status (sql_rows both_stores) = [PStr ''pending'']
   \<and> map status (sql_rows (snd (update_main status_request both_stores))) = [PStr ''done'']
   \<and> list_all2
        (\<lambda>r r'. row_id r' = row_id r \<and> created_at r' = created_at r \<and> user_id r' = user_id r
           \<and> file_name r' = file_name r \<and> file_type r' = file_type r
           \<and> file_size r' = file_size r \<and> blob_url r' = blob_url r)
        (sql_rows both_stores) (sql_rows (snd (update_main status_request both_stores)))"
proof -
  let ?w' = "snd (update_main status_request both_stores)"
  have run: "update_main status_request both_stores =
               (fst (update_main status_request both_stores), ?w')"
    by simp
  have keys: "body_keys status_request = {''status'', ''createdAt''}"
    by (auto simp: body_keys_def status_request_def demo_request_def)
  have before: "map status (sql_rows both_stores) = [PStr ''pending'']"
    by (simp add: both_stores_def demo_world_def)
  have stmts: "executed_statements (new_events both_stores ?w') =
     [UpdateSet [''status''] [(''id'', PStr ''a1''), (''status'', PStr ''done'')]]"
    by (simp add: new_events_def update_main_def update_body_def update_apply_def
        update_cosmos_def update_sql_def build_update_def sql_assignment_def fetch_updated_def
        fields_to_update_def allowed_fields_def field_mapping_def dict_update_def merge_stores_def
        select_columns_def set_col_def
        status_request_def both_stores_def model_defs Let_def)
  have after: "map status (sql_rows ?w') = [PStr ''done'']"
    by (simp add: update_main_def update_body_def update_apply_def
        update_cosmos_def update_sql_def build_update_def sql_assignment_def fetch_updated_def
        fields_to_update_def allowed_fields_def field_mapping_def dict_update_def merge_stores_def
        select_columns_def set_col_def
        status_request_def both_stores_def model_defs Let_def)
  have "list_all2
        (\<lambda>r r'. row_id r' = row_id r \<and> created_at r' = created_at r \<and> user_id r' = user_id r
           \<and> file_name r' = file_name r \<and> file_type r' = file_type r
           \<and> file_size r' = file_size r \<and> blob_url r' = blob_url r)
        (sql_rows both_stores) (sql_rows ?w')"
    by (rule list_all2_mono [OF conjunct2 [OF update_sets_only_accepted_columns [OF run]]])
       (auto simp: keys)
  with stmts keys before after show ?thesis by blast
qed

end
